theory Spec2Isabelle
  imports Complex_Main "HOL-Library.Word" "HOL-Library.Sublist"
begin

section \<open>ParaSAFE: a shallow embedding of the simulation kernel\<close>

text \<open>
  The C++ sources are embedded function by function. Conventions of the embedding:
  \<^item> a \<^verbatim>\<open>double\<close> is a \<^typ>\<open>real\<close>: comparisons, \<^verbatim>\<open>std::min\<close>, \<^verbatim>\<open>std::max\<close> and
    \<^verbatim>\<open>std::abs\<close> are the ones of the reals; floating-point rounding, infinities and
    NaN are outside the model;
  \<^item> a \<^verbatim>\<open>std::atomic<T>\<close> is a plain field of a record: every load and store is one
    atomic step, and threads are interleavings of such steps;
  \<^item> \<^verbatim>\<open>std::atomic<uint64_t>\<close> is a \<^typ>\<open>64 word\<close>, \<^verbatim>\<open>std::atomic<int>\<close> a
    \<^typ>\<open>32 word\<close> read with \<^const>\<open>sint\<close>;
  \<^item> a \<^verbatim>\<open>std::string\<close> is a \<^typ>\<open>string\<close> of bytes; the controller names of the
    sources are UTF-8 and are spelled out byte by byte;
  \<^item> \<^verbatim>\<open>log_detail\<close> lines are kept only where a property speaks of them.
\<close>

subsection \<open>shared\_state.hpp\<close>

record StateSnapshot =
  snap_position :: real
  snap_velocity :: real
  snap_acceleration :: real
  snap_throttle :: real
  snap_brake :: real
  snap_thrust :: real
  snap_drag_force :: real
  snap_brake_force :: real
  snap_simulation_time :: real
  snap_pitch_angle :: real
  snap_pitch_rate :: real
  snap_pitch_control_output :: real

datatype FlightMode = MANUAL | AUTO | SEMI_AUTO

record ControlAuthority =
  pilot_has_throttle_control :: bool
  pilot_has_brake_control :: bool
  auto_system_has_throttle_control :: bool
  auto_system_has_brake_control :: bool

record SharedStateSpace =
  position :: real
  velocity :: real
  acceleration :: real
  throttle :: real
  brake :: real
  simulation_time :: real
  thrust :: real
  brake_force :: real
  drag_force :: real
  simulation_running :: bool
  simulation_started :: bool
  final_stop_enabled :: bool
  throttle_control_enabled :: bool
  brake_control_enabled :: bool
  cruise_control_enabled :: bool
  abort_triggered :: bool
  system_ready :: bool
  user_confirmed :: bool
  target_speed :: real
  abort_speed :: real
  abort_speed_threshold :: real
  zero_velocity_count :: "32 word"
  pitch_angle :: real
  pitch_rate :: real
  pitch_control_output :: real
  pitch_control_enabled :: bool
  current_state :: StateSnapshot
  state_version :: "64 word"
  flight_mode :: FlightMode
  control_auth :: ControlAuthority
  dt :: real

text \<open>The state as \<^verbatim>\<open>std::make_unique<SharedStateSpace>()\<close> builds it: the member
  initialisers of \<^verbatim>\<open>SharedStateSpace\<close>, and zeros in \<^verbatim>\<open>current_state\<close>, whose type has
  none.\<close>

definition StateSnapshot_zero :: StateSnapshot where
  "StateSnapshot_zero =
     \<lparr>snap_position = 0, snap_velocity = 0, snap_acceleration = 0, snap_throttle = 0,
      snap_brake = 0, snap_thrust = 0, snap_drag_force = 0, snap_brake_force = 0,
      snap_simulation_time = 0, snap_pitch_angle = 0, snap_pitch_rate = 0,
      snap_pitch_control_output = 0\<rparr>"

definition SharedStateSpace_init :: SharedStateSpace where
  "SharedStateSpace_init =
     \<lparr>position = 0, velocity = 0, acceleration = 0, throttle = 0, brake = 0,
      simulation_time = 0, thrust = 0, brake_force = 0, drag_force = 0,
      simulation_running = False, simulation_started = False, final_stop_enabled = False,
      throttle_control_enabled = False, brake_control_enabled = False,
      cruise_control_enabled = False, abort_triggered = False, system_ready = False,
      user_confirmed = False, target_speed = 0, abort_speed = 0, abort_speed_threshold = 0,
      zero_velocity_count = 0, pitch_angle = 0, pitch_rate = 0, pitch_control_output = 0,
      pitch_control_enabled = False, current_state = StateSnapshot_zero, state_version = 0,
      flight_mode = MANUAL,
      control_auth = \<lparr>pilot_has_throttle_control = True, pilot_has_brake_control = True,
        auto_system_has_throttle_control = False, auto_system_has_brake_control = False\<rparr>,
      dt = 0.01\<rparr>"

text \<open>\<^verbatim>\<open>updateState\<close>: under \<^verbatim>\<open>state_mutex\<close>, copy the snapshot in and
  \<^verbatim>\<open>state_version.fetch_add(1)\<close>.\<close>

definition updateState :: "StateSnapshot \<Rightarrow> SharedStateSpace \<Rightarrow> SharedStateSpace" where
  "updateState new_state s = s\<lparr>current_state := new_state, state_version := state_version s + 1\<rparr>"

text \<open>\<^verbatim>\<open>getState\<close>: a fresh \<^verbatim>\<open>StateSnapshot\<close> from twelve atomic loads.\<close>

definition getState :: "SharedStateSpace \<Rightarrow> StateSnapshot" where
  "getState s =
     \<lparr>snap_position = position s, snap_velocity = velocity s,
      snap_acceleration = acceleration s, snap_throttle = throttle s, snap_brake = brake s,
      snap_thrust = thrust s, snap_drag_force = drag_force s,
      snap_brake_force = brake_force s, snap_simulation_time = simulation_time s,
      snap_pitch_angle = pitch_angle s, snap_pitch_rate = pitch_rate s,
      snap_pitch_control_output = pitch_control_output s\<rparr>"

definition getStateVersion :: "SharedStateSpace \<Rightarrow> 64 word" where
  "getStateVersion s = state_version s"

text \<open>\<^verbatim>\<open>setFlightMode\<close>: store the mode, then the four authority flags of its case.\<close>

fun setFlightMode :: "FlightMode \<Rightarrow> SharedStateSpace \<Rightarrow> SharedStateSpace" where
  "setFlightMode MANUAL s =
     s\<lparr>flight_mode := MANUAL,
       control_auth := \<lparr>pilot_has_throttle_control = True, pilot_has_brake_control = True,
         auto_system_has_throttle_control = False, auto_system_has_brake_control = False\<rparr>\<rparr>"
| "setFlightMode AUTO s =
     s\<lparr>flight_mode := AUTO,
       control_auth := \<lparr>pilot_has_throttle_control = False, pilot_has_brake_control = False,
         auto_system_has_throttle_control = True, auto_system_has_brake_control = True\<rparr>\<rparr>"
| "setFlightMode SEMI_AUTO s =
     s\<lparr>flight_mode := SEMI_AUTO,
       control_auth := \<lparr>pilot_has_throttle_control = True, pilot_has_brake_control = True,
         auto_system_has_throttle_control = True, auto_system_has_brake_control = True\<rparr>\<rparr>"

definition hasControlConflict :: "SharedStateSpace \<Rightarrow> bool" where
  "hasControlConflict s =
     ((pilot_has_throttle_control (control_auth s) \<and> auto_system_has_throttle_control (control_auth s)) \<or>
      (pilot_has_brake_control (control_auth s) \<and> auto_system_has_brake_control (control_auth s)))"

subsection \<open>generic\_events.hpp, controller\_actions\_config.hpp\<close>

datatype ControllerAction =
    START_THROTTLE_INCREASE | STOP_THROTTLE_INCREASE
  | START_THROTTLE_DECREASE | STOP_THROTTLE_DECREASE
  | START_BRAKE | STOP_BRAKE
  | START_CRUISE | STOP_CRUISE
  | START_PITCH_CONTROL | STOP_PITCH_CONTROL | SET_PITCH_ANGLE
  | STOP_ALL_CONTROLLERS
  | SWITCH_TO_AUTO_MODE | SWITCH_TO_MANUAL_MODE | SWITCH_TO_SEMI_AUTO_MODE

text \<open>The five controller names of \<^verbatim>\<open>createControllers\<close>, as the UTF-8 bytes of the
  string literals in the sources (throttle increase, throttle decrease, brake, runway
  cruise, pitch hold).\<close>

definition name_throttle_increase :: string where
  "name_throttle_increase =
     [CHR 0xE6, CHR 0xB2, CHR 0xB9, CHR 0xE9, CHR 0x97, CHR 0xA8,
      CHR 0xE5, CHR 0xA2, CHR 0x9E, CHR 0xE5, CHR 0x8A, CHR 0xA0]"

definition name_throttle_decrease :: string where
  "name_throttle_decrease =
     [CHR 0xE6, CHR 0xB2, CHR 0xB9, CHR 0xE9, CHR 0x97, CHR 0xA8,
      CHR 0xE5, CHR 0x87, CHR 0x8F, CHR 0xE5, CHR 0xB0, CHR 0x91]"

definition name_brake :: string where
  "name_brake = [CHR 0xE5, CHR 0x88, CHR 0xB9, CHR 0xE8, CHR 0xBD, CHR 0xA6]"

definition name_cruise_runway :: string where
  "name_cruise_runway =
     [CHR 0xE8, CHR 0xB7, CHR 0x91, CHR 0xE9, CHR 0x81, CHR 0x93,
      CHR 0xE5, CHR 0xB7, CHR 0xA1, CHR 0xE8, CHR 0x88, CHR 0xAA]"

definition name_pitch_hold :: string where
  "name_pitch_hold =
     [CHR 0xE4, CHR 0xBF, CHR 0xAF, CHR 0xE4, CHR 0xBB, CHR 0xB0, CHR 0xE8, CHR 0xA7,
      CHR 0x92, CHR 0xE4, CHR 0xBF, CHR 0x9D, CHR 0xE6, CHR 0x8C, CHR 0x81]"

text \<open>A \<^verbatim>\<open>std::map<std::string, std::string>\<close> is an association list with distinct
  keys, looked up with \<^const>\<open>map_of\<close> and iterated in list order.\<close>

record ControllerActionConfig =
  controller_name :: string
  state_settings :: "(string \<times> string) list"
  action_type :: string

record ControllerActionsConfig =
  action_configs :: "(string \<times> ControllerActionConfig) list"
  config_loaded :: bool

definition ControllerActionsConfig_init :: ControllerActionsConfig where
  "ControllerActionsConfig_init = \<lparr>action_configs = [], config_loaded = False\<rparr>"

definition mk_config :: "string \<Rightarrow> (string \<times> string) list \<Rightarrow> string \<Rightarrow> ControllerActionConfig" where
  "mk_config n ss ty = \<lparr>controller_name = n, state_settings = ss, action_type = ty\<rparr>"

definition loadDefaultConfig :: ControllerActionsConfig where
  "loadDefaultConfig =
    \<lparr>action_configs =
      [(''START_THROTTLE_INCREASE'',
          mk_config name_throttle_increase [(''throttle_control_enabled'', ''true'')] ''CONTROLLER''),
       (''STOP_THROTTLE_INCREASE'',
          mk_config name_throttle_increase [(''throttle_control_enabled'', ''false'')] ''CONTROLLER''),
       (''START_THROTTLE_DECREASE'',
          mk_config name_throttle_decrease [(''throttle_control_enabled'', ''true'')] ''CONTROLLER''),
       (''STOP_THROTTLE_DECREASE'',
          mk_config name_throttle_decrease [(''throttle_control_enabled'', ''false'')] ''CONTROLLER''),
       (''START_BRAKE'',
          mk_config name_brake
            [(''brake_control_enabled'', ''true''), (''cruise_control_enabled'', ''false'')]
            ''CONTROLLER''),
       (''STOP_BRAKE'',
          mk_config name_brake [(''brake_control_enabled'', ''false'')] ''CONTROLLER''),
       (''START_CRUISE'',
          mk_config name_cruise_runway [(''cruise_control_enabled'', ''true'')] ''CONTROLLER''),
       (''STOP_CRUISE'',
          mk_config name_cruise_runway [(''cruise_control_enabled'', ''false'')] ''CONTROLLER''),
       (''START_PITCH_CONTROL'',
          mk_config name_pitch_hold [(''pitch_control_enabled'', ''true'')] ''CONTROLLER''),
       (''STOP_PITCH_CONTROL'',
          mk_config name_pitch_hold [(''pitch_control_enabled'', ''false'')] ''CONTROLLER''),
       (''SET_PITCH_ANGLE'', mk_config name_pitch_hold [] ''PITCH_SETTING''),
       (''STOP_ALL_CONTROLLERS'', mk_config ''STOP_ALL'' [] ''STOP_ALL''),
       (''SWITCH_TO_AUTO_MODE'', mk_config ''MODE'' [(''flight_mode'', ''AUTO'')] ''MODE''),
       (''SWITCH_TO_MANUAL_MODE'', mk_config ''MODE'' [(''flight_mode'', ''MANUAL'')] ''MODE''),
       (''SWITCH_TO_SEMI_AUTO_MODE'',
          mk_config ''MODE'' [(''flight_mode'', ''SEMI_AUTO'')] ''MODE'')],
     config_loaded = True\<rparr>"

text \<open>\<^verbatim>\<open>getActionConfig\<close>: load the default table when nothing was loaded, then
  \<^verbatim>\<open>find\<close>; the null pointer is \<^const>\<open>None\<close>.\<close>

definition getActionConfig ::
  "string \<Rightarrow> ControllerActionsConfig \<Rightarrow> ControllerActionConfig option \<times> ControllerActionsConfig" where
  "getActionConfig action_name c =
     (let c' = (if config_loaded c then c else loadDefaultConfig)
      in (map_of (action_configs c') action_name, c'))"

subsection \<open>event\_bus.hpp: event definitions\<close>

record EventDefinition =
  name :: string
  description :: string
  trigger_condition :: "SharedStateSpace \<Rightarrow> bool"
  actions :: "ControllerAction list"
  response_description :: string
  triggered :: bool

subsection \<open>controller\_manager.hpp\<close>

datatype manager_log =
    LogAlreadyTriggered string
  | LogEventTriggered string
  | LogActionConfigNotFound string
  | LogExecutingAction string string
  | LogLacksThrottleControl string
  | LogLacksBrakeControl string
  | LogStartedController string
  | LogControllerNotFound string
  | LogStoppedController string
  | LogAllControllersStopped

text \<open>The manager holds references to the shared state and to the static action table;
  here both are fields. The optional \<^verbatim>\<open>event_state_change_callback_\<close> (null when the
  three-argument constructor is used) is a function on the shared state. A controller object is its \<^verbatim>\<open>running\<close> flag: \<^verbatim>\<open>start()\<close> sets
  it (and spawns the worker thread), \<^verbatim>\<open>stop()\<close> clears it (and joins the thread).\<close>

record ControllerManagerThread =
  state :: SharedStateSpace
  actions_config :: ControllerActionsConfig
  controllers :: "string \<rightharpoonup> bool"
  triggered_events :: "string \<rightharpoonup> bool"
  event_definitions :: "(string \<times> EventDefinition) list"
  event_state_change_callback :: "(string \<Rightarrow> SharedStateSpace \<Rightarrow> SharedStateSpace) option"
  mlog :: "manager_log list"

definition createControllers :: "string \<rightharpoonup> bool" where
  "createControllers =
     [name_throttle_increase \<mapsto> False, name_throttle_decrease \<mapsto> False,
      name_brake \<mapsto> False, name_cruise_runway \<mapsto> False, name_pitch_hold \<mapsto> False]"

definition ControllerManagerThread_init ::
  "SharedStateSpace \<Rightarrow> ControllerActionsConfig \<Rightarrow> ControllerManagerThread" where
  "ControllerManagerThread_init s c =
     \<lparr>state = s, actions_config = c, controllers = createControllers,
      triggered_events = Map.empty, event_definitions = [],
      event_state_change_callback = None, mlog = []\<rparr>"

definition setEventDefinitions ::
  "(string \<times> EventDefinition) list \<Rightarrow> ControllerManagerThread \<Rightarrow> ControllerManagerThread" where
  "setEventDefinitions defs m = m\<lparr>event_definitions := defs\<rparr>"

fun getActionName :: "ControllerAction \<Rightarrow> string" where
  "getActionName START_THROTTLE_INCREASE = ''START_THROTTLE_INCREASE''"
| "getActionName STOP_THROTTLE_INCREASE = ''STOP_THROTTLE_INCREASE''"
| "getActionName START_THROTTLE_DECREASE = ''START_THROTTLE_DECREASE''"
| "getActionName STOP_THROTTLE_DECREASE = ''STOP_THROTTLE_DECREASE''"
| "getActionName START_BRAKE = ''START_BRAKE''"
| "getActionName STOP_BRAKE = ''STOP_BRAKE''"
| "getActionName START_CRUISE = ''START_CRUISE''"
| "getActionName STOP_CRUISE = ''STOP_CRUISE''"
| "getActionName START_PITCH_CONTROL = ''START_PITCH_CONTROL''"
| "getActionName STOP_PITCH_CONTROL = ''STOP_PITCH_CONTROL''"
| "getActionName SET_PITCH_ANGLE = ''SET_PITCH_ANGLE''"
| "getActionName STOP_ALL_CONTROLLERS = ''STOP_ALL_CONTROLLERS''"
| "getActionName SWITCH_TO_AUTO_MODE = ''SWITCH_TO_AUTO_MODE''"
| "getActionName SWITCH_TO_MANUAL_MODE = ''SWITCH_TO_MANUAL_MODE''"
| "getActionName SWITCH_TO_SEMI_AUTO_MODE = ''SWITCH_TO_SEMI_AUTO_MODE''"

text \<open>\<^verbatim>\<open>applyStateSettings\<close>: one pass over the settings; an unknown key is skipped.\<close>

definition applyStateSetting :: "string \<times> string \<Rightarrow> SharedStateSpace \<Rightarrow> SharedStateSpace" where
  "applyStateSetting kv s =
     (let var_name = fst kv; v = snd kv in
      if var_name = ''throttle_control_enabled'' then s\<lparr>throttle_control_enabled := (v = ''true'')\<rparr>
      else if var_name = ''brake_control_enabled'' then s\<lparr>brake_control_enabled := (v = ''true'')\<rparr>
      else if var_name = ''cruise_control_enabled'' then s\<lparr>cruise_control_enabled := (v = ''true'')\<rparr>
      else if var_name = ''pitch_control_enabled'' then s\<lparr>pitch_control_enabled := (v = ''true'')\<rparr>
      else s)"

definition applyStateSettings :: "(string \<times> string) list \<Rightarrow> SharedStateSpace \<Rightarrow> SharedStateSpace" where
  "applyStateSettings settings s = fold applyStateSetting settings s"

text \<open>The manager's \<^verbatim>\<open>setFlightMode(mode_name)\<close>; another name leaves the state alone.\<close>

definition setFlightMode_by_name :: "string \<Rightarrow> SharedStateSpace \<Rightarrow> SharedStateSpace" where
  "setFlightMode_by_name mode_name s =
     (if mode_name = ''AUTO'' then setFlightMode AUTO s
      else if mode_name = ''MANUAL'' then setFlightMode MANUAL s
      else if mode_name = ''SEMI_AUTO'' then setFlightMode SEMI_AUTO s
      else s)"

text \<open>\<^verbatim>\<open>startController\<close>: the two authority checks return before \<^verbatim>\<open>start()\<close>.\<close>

definition startController :: "string \<Rightarrow> ControllerManagerThread \<Rightarrow> ControllerManagerThread" where
  "startController n m =
     (case controllers m n of
        None \<Rightarrow> m\<lparr>mlog := mlog m @ [LogControllerNotFound n]\<rparr>
      | Some r \<Rightarrow>
          if (n = name_throttle_increase \<or> n = name_throttle_decrease \<or> n = name_cruise_runway)
             \<and> \<not> auto_system_has_throttle_control (control_auth (state m))
          then m\<lparr>mlog := mlog m @ [LogLacksThrottleControl n]\<rparr>
          else if n = name_brake \<and> \<not> auto_system_has_brake_control (control_auth (state m))
          then m\<lparr>mlog := mlog m @ [LogLacksBrakeControl n]\<rparr>
          else m\<lparr>controllers := (controllers m)(n \<mapsto> True),
                 mlog := mlog m @ [LogStartedController n]\<rparr>)"

definition stopController :: "string \<Rightarrow> ControllerManagerThread \<Rightarrow> ControllerManagerThread" where
  "stopController n m =
     (case controllers m n of
        None \<Rightarrow> m
      | Some r \<Rightarrow> m\<lparr>controllers := (controllers m)(n \<mapsto> False),
                     mlog := mlog m @ [LogStoppedController n]\<rparr>)"

definition stopAllControllers :: "ControllerManagerThread \<Rightarrow> ControllerManagerThread" where
  "stopAllControllers m =
     m\<lparr>controllers := (\<lambda>n. map_option (\<lambda>r. False) (controllers m n)),
       mlog := mlog m @ [LogAllControllersStopped]\<rparr>"

text \<open>One round of the loop of \<^verbatim>\<open>executeControllerActions\<close>, and the loop.\<close>

definition executeControllerAction :: "ControllerAction \<Rightarrow> ControllerManagerThread \<Rightarrow> ControllerManagerThread" where
  "executeControllerAction action m =
     (let action_name = getActionName action;
          found = getActionConfig action_name (actions_config m);
          m1 = m\<lparr>actions_config := snd found\<rparr>
      in case fst found of
           None \<Rightarrow> m1\<lparr>mlog := mlog m1 @ [LogActionConfigNotFound action_name]\<rparr>
         | Some config \<Rightarrow>
            (let m2 =
               (if action_type config = ''CONTROLLER'' then
                  (let m' = m1\<lparr>state := applyStateSettings (state_settings config) (state m1)\<rparr>
                   in if prefix ''START_'' action_name then startController (controller_name config) m'
                      else if prefix ''STOP_'' action_name then stopController (controller_name config) m'
                      else m')
                else if action_type config = ''STOP_ALL'' then stopAllControllers m1
                else if action_type config = ''MODE'' then
                  (case map_of (state_settings config) ''flight_mode'' of
                     None \<Rightarrow> m1
                   | Some mode_name \<Rightarrow> m1\<lparr>state := setFlightMode_by_name mode_name (state m1)\<rparr>)
                else m1)
             in m2\<lparr>mlog := mlog m2 @ [LogExecutingAction action_name (controller_name config)]\<rparr>))"

definition executeControllerActions ::
  "ControllerAction list \<Rightarrow> ControllerManagerThread \<Rightarrow> ControllerManagerThread" where
  "executeControllerActions as m = fold executeControllerAction as m"

subsection \<open>aircraft\_config.hpp and the two aircraft\<close>

record AircraftConfigBase =
  getMass :: real
  getMaxThrust :: real
  getMinThrust :: real
  getMaxBrakeForce :: real
  getDragCoefficient :: real
  getStaticFrictionCoefficient :: real

definition AircraftConfig_FixedWin_AC1 :: AircraftConfigBase where
  "AircraftConfig_FixedWin_AC1 =
     \<lparr>getMass = 80000, getMaxThrust = 500000, getMinThrust = 0, getMaxBrakeForce = 400000,
      getDragCoefficient = 0.02, getStaticFrictionCoefficient = 0.02\<rparr>"

definition AircraftConfig_FixedWin_AC2 :: AircraftConfigBase where
  "AircraftConfig_FixedWin_AC2 =
     \<lparr>getMass = 85000, getMaxThrust = 520000, getMinThrust = 0, getMaxBrakeForce = 420000,
      getDragCoefficient = 0.021, getStaticFrictionCoefficient = 0.021\<rparr>"

subsection \<open>ACForceModel.hpp: the linear force model\<close>

record ForceResult =
  fr_net_force :: real
  fr_thrust :: real
  fr_drag :: real
  fr_brake_force :: real
  fr_static_friction :: real

definition AIR_DENSITY :: real where "AIR_DENSITY = 1.225"
definition FRONTAL_AREA :: real where "FRONTAL_AREA = 50.0"

text \<open>\<^verbatim>\<open>ACForceModel::calculateNetForce\<close>, statement by statement.\<close>

definition calculateNetForce :: "SharedStateSpace \<Rightarrow> real \<Rightarrow> AircraftConfigBase \<Rightarrow> ForceResult" where
  "calculateNetForce st current_velocity aircraftConfig =
     (let r_thrust = throttle st * getMaxThrust aircraftConfig;
          drag_coeff = getDragCoefficient aircraftConfig;
          r_drag = 0.5 * AIR_DENSITY * FRONTAL_AREA * drag_coeff * current_velocity * current_velocity;
          r_brake_force =
            (if \<bar>current_velocity\<bar> < 0.01 then 0.0
             else (let speed_factor = min 1.0 (max 0.3 (\<bar>current_velocity\<bar> / 50.0))
                   in brake st * getMaxBrakeForce aircraftConfig * speed_factor));
          r_static_friction =
            (if \<bar>current_velocity\<bar> < 0.01 then
               (let static_friction_coeff = getStaticFrictionCoefficient aircraftConfig;
                    normal_force = getMass aircraftConfig * 9.81
                in static_friction_coeff * normal_force)
             else 0.0);
          net0 = r_thrust - r_drag - r_brake_force;
          net =
            (if \<bar>current_velocity\<bar> < 0.01 then
               (if \<bar>net0\<bar> < r_static_friction then 0
                else net0 - r_static_friction * (if net0 > 0 then 1 else - 1))
             else net0)
      in \<lparr>fr_net_force = net, fr_thrust = r_thrust, fr_drag = r_drag,
          fr_brake_force = r_brake_force, fr_static_friction = r_static_friction\<rparr>)"

subsection \<open>state\_update\_queue.hpp\<close>

datatype StateUpdateType = Position | Velocity | Acceleration | Throttle | Brake

record StateUpdateMessage =
  msg_type :: StateUpdateType
  msg_value :: real

text \<open>The queue is the list of its messages, oldest first.\<close>

type_synonym StateUpdateQueue = "StateUpdateMessage list"

definition push :: "StateUpdateType \<Rightarrow> real \<Rightarrow> StateUpdateQueue \<Rightarrow> StateUpdateQueue" where
  "push ty v q = q @ [\<lparr>msg_type = ty, msg_value = v\<rparr>]"

definition try_pop :: "StateUpdateQueue \<Rightarrow> (StateUpdateMessage \<times> StateUpdateQueue) option" where
  "try_pop q = (case q of [] \<Rightarrow> None | m # rest \<Rightarrow> Some (m, rest))"

text \<open>What the workers share: the state and the update queue.\<close>

record sim =
  shared :: SharedStateSpace
  queue :: StateUpdateQueue

subsection \<open>DynamicsModel\_FixedWing\_Linear.hpp\<close>

text \<open>\<^verbatim>\<open>DynamicsModel_FixedWing_Linear::step\<close>. The force model is the virtual call of the
  source, a parameter here; \<open>clock_time\<close> is \<^verbatim>\<open>clock.getCurrentTime()\<close>.\<close>

definition step ::
  "(SharedStateSpace \<Rightarrow> real \<Rightarrow> AircraftConfigBase \<Rightarrow> ForceResult) \<Rightarrow> AircraftConfigBase \<Rightarrow> real
     \<Rightarrow> sim \<Rightarrow> sim" where
  "step forceModel aircraftConfig clock_time x =
     (let st = shared x;
          forces = forceModel st (velocity st) aircraftConfig;
          st1 = st\<lparr>thrust := fr_thrust forces, drag_force := fr_drag forces,
                    brake_force := fr_brake_force forces\<rparr>;
          acceleration' = fr_net_force forces / getMass aircraftConfig;
          current_velocity = velocity st1;
          current_position = position st1;
          new_velocity = current_velocity + acceleration' * 0.01;
          new_position = current_position + current_velocity * 0.01;
          q1 = push Velocity new_velocity (queue x);
          q2 = push Position new_position q1;
          q3 = push Acceleration acceleration' q2
      in \<lparr>shared = st1\<lparr>simulation_time := clock_time\<rparr>, queue = q3\<rparr>)"

subsection \<open>state\_manager.hpp\<close>

fun process_raw_update :: "StateUpdateMessage \<Rightarrow> SharedStateSpace \<Rightarrow> SharedStateSpace" where
  "process_raw_update msg st =
     (case msg_type msg of
        Position \<Rightarrow> st\<lparr>position := msg_value msg\<rparr>
      | Velocity \<Rightarrow> st\<lparr>velocity := msg_value msg\<rparr>
      | Acceleration \<Rightarrow> st\<lparr>acceleration := msg_value msg\<rparr>
      | Throttle \<Rightarrow> st\<lparr>throttle := msg_value msg\<rparr>
      | Brake \<Rightarrow> st\<lparr>brake := msg_value msg\<rparr>)"

text \<open>One round of \<^verbatim>\<open>while (queue_.try_pop(msg)) process_raw_update(msg)\<close>, and the whole
  loop with no producer running in between: it ends with the queue empty.\<close>

definition pop_and_process :: "sim \<Rightarrow> sim" where
  "pop_and_process x =
     (case try_pop (queue x) of
        None \<Rightarrow> x
      | Some (msg, rest) \<Rightarrow> \<lparr>shared = process_raw_update msg (shared x), queue = rest\<rparr>)"

fun drain :: "StateUpdateQueue \<Rightarrow> SharedStateSpace \<Rightarrow> SharedStateSpace" where
  "drain [] st = st"
| "drain (msg # rest) st = drain rest (process_raw_update msg st)"

definition process_queue :: "sim \<Rightarrow> sim" where
  "process_queue x = \<lparr>shared = drain (queue x) (shared x), queue = []\<rparr>"

subsection \<open>controller\_config.hpp, throttle\_controller.hpp, brake\_controller.hpp,
  CruiseOnRunway\_controller.hpp\<close>

definition CRUISE_GAIN :: real where "CRUISE_GAIN = 0.1"
definition MAX_THROTTLE :: real where "MAX_THROTTLE = 1.0"
definition MIN_THROTTLE :: real where "MIN_THROTTLE = 0.0"
definition BRAKE_RATE :: real where "BRAKE_RATE = 0.2"
definition MAX_BRAKE :: real where "MAX_BRAKE = 1.0"
definition MIN_BRAKE :: real where "MIN_BRAKE = 0.0"
definition THROTTLE_INCREASE_RATE :: real where "THROTTLE_INCREASE_RATE = 0.1"
definition THROTTLE_DECREASE_RATE :: real where "THROTTLE_DECREASE_RATE = 0.2"
definition FIXED_DT :: real where "FIXED_DT = 0.01"

text \<open>\<^verbatim>\<open>ThrottleController_Increase::updateThrottle\<close>: the value is pushed only when it
  differs from the current one by more than \<open>1e-6\<close>.\<close>

definition ThrottleController_Increase_updateThrottle :: "real \<Rightarrow> sim \<Rightarrow> sim" where
  "ThrottleController_Increase_updateThrottle dt' x =
     (let current_throttle = throttle (shared x);
          new_throttle = min 1.0 (max 0.0 (current_throttle + THROTTLE_INCREASE_RATE * dt'))
      in if \<bar>new_throttle - current_throttle\<bar> > 1 / 1000000
         then x\<lparr>queue := push Throttle new_throttle (queue x)\<rparr>
         else x)"

definition ThrottleController_Decrease_updateThrottle :: "real \<Rightarrow> sim \<Rightarrow> sim" where
  "ThrottleController_Decrease_updateThrottle dt' x =
     (let current_throttle = throttle (shared x);
          new_throttle0 = current_throttle - THROTTLE_DECREASE_RATE * dt';
          new_throttle = (if new_throttle0 < 0.0 then 0.0 else new_throttle0)
      in x\<lparr>queue := push Throttle new_throttle (queue x)\<rparr>)"

definition BrakeController_updateBrake :: "real \<Rightarrow> sim \<Rightarrow> sim" where
  "BrakeController_updateBrake dt' x =
     (let current_brake = brake (shared x);
          new_brake0 = current_brake + BRAKE_RATE * dt';
          new_brake = (if new_brake0 > MAX_BRAKE then MAX_BRAKE else new_brake0)
      in x\<lparr>shared := (shared x)\<lparr>brake := new_brake\<rparr>\<rparr>)"

text \<open>\<^verbatim>\<open>CruiseOnRunwayController::calculateThrottleAndBrake\<close> and its local
  \<^verbatim>\<open>velocity_error\<close>.\<close>

definition velocity_error :: "real \<Rightarrow> real \<Rightarrow> real" where
  "velocity_error current_velocity target_velocity = target_velocity - current_velocity"

definition calculateThrottleAndBrake :: "real \<Rightarrow> real \<Rightarrow> real \<times> real" where
  "calculateThrottleAndBrake current_velocity target_velocity =
     (let err = velocity_error current_velocity target_velocity
      in if err > 0 then (max 0.0 (min (CRUISE_GAIN * err) MAX_THROTTLE), 0.0)
         else (0.0, max 0.0 (min (- CRUISE_GAIN * err) MAX_BRAKE)))"

text \<open>\<^verbatim>\<open>CruiseOnRunwayController::updateThrottle\<close>: the target is the literal of the
  source.\<close>

definition cruise_target_velocity :: real where
  "cruise_target_velocity = 100.0"

definition CruiseOnRunwayController_updateThrottle :: "sim \<Rightarrow> sim" where
  "CruiseOnRunwayController_updateThrottle x =
     (let current_velocity = velocity (shared x);
          target_velocity = cruise_target_velocity;
          tb = calculateThrottleAndBrake current_velocity target_velocity
      in x\<lparr>shared := (shared x)\<lparr>throttle := fst tb, brake := snd tb\<rparr>\<rparr>)"

text \<open>The body of each controller's loop between \<^verbatim>\<open>waitForNextStep\<close> and
  \<^verbatim>\<open>notifyStepCompleted\<close>: the update runs when the controller's enable flag is set.\<close>

definition ThrottleController_Increase_body :: "sim \<Rightarrow> sim" where
  "ThrottleController_Increase_body x =
     (if throttle_control_enabled (shared x) then ThrottleController_Increase_updateThrottle FIXED_DT x else x)"

definition ThrottleController_Decrease_body :: "sim \<Rightarrow> sim" where
  "ThrottleController_Decrease_body x =
     (if throttle_control_enabled (shared x) then ThrottleController_Decrease_updateThrottle FIXED_DT x else x)"

definition BrakeController_body :: "sim \<Rightarrow> sim" where
  "BrakeController_body x =
     (if brake_control_enabled (shared x) then BrakeController_updateBrake FIXED_DT x else x)"

definition CruiseOnRunwayController_body :: "sim \<Rightarrow> sim" where
  "CruiseOnRunwayController_body x =
     (if cruise_control_enabled (shared x) then CruiseOnRunwayController_updateThrottle x else x)"

text \<open>The workers of a run as interleaved atomic actions on the shared state and the
  queue: a controller's loop body, the integrator's step, one round of the state
  manager's loop, or a change of the enable flags by the controller manager.\<close>

datatype worker_action =
    Act_ThrottleIncrease
  | Act_ThrottleDecrease
  | Act_Brake
  | Act_Cruise
  | Act_Dynamics AircraftConfigBase real
  | Act_ManagerPop
  | Act_ApplySettings "(string \<times> string) list"

fun worker_step :: "worker_action \<Rightarrow> sim \<Rightarrow> sim" where
  "worker_step Act_ThrottleIncrease x = ThrottleController_Increase_body x"
| "worker_step Act_ThrottleDecrease x = ThrottleController_Decrease_body x"
| "worker_step Act_Brake x = BrakeController_body x"
| "worker_step Act_Cruise x = CruiseOnRunwayController_body x"
| "worker_step (Act_Dynamics aircraftConfig clock_time) x = step calculateNetForce aircraftConfig clock_time x"
| "worker_step Act_ManagerPop x = pop_and_process x"
| "worker_step (Act_ApplySettings settings) x = x\<lparr>shared := applyStateSettings settings (shared x)\<rparr>"

definition run_workers :: "worker_action list \<Rightarrow> sim \<Rightarrow> sim" where
  "run_workers acts x = fold worker_step acts x"

text \<open>The range of the two control inputs, on the state and on the pending messages.\<close>

definition in_unit :: "real \<Rightarrow> bool" where
  "in_unit v = (0 \<le> v \<and> v \<le> 1)"

definition msg_in_range :: "StateUpdateMessage \<Rightarrow> bool" where
  "msg_in_range m = (if msg_type m = Throttle \<or> msg_type m = Brake then in_unit (msg_value m) else True)"

definition controls_in_range :: "sim \<Rightarrow> bool" where
  "controls_in_range x =
     (in_unit (throttle (shared x)) \<and> in_unit (brake (shared x)) \<and> list_all msg_in_range (queue x))"

subsection \<open>controller\_manager.hpp: the event handler\<close>

definition markEventTriggered :: "string \<Rightarrow> ControllerManagerThread \<Rightarrow> ControllerManagerThread" where
  "markEventTriggered event_name m =
     m\<lparr>triggered_events := (triggered_events m)(event_name \<mapsto> True),
       mlog := mlog m @ [LogEventTriggered event_name]\<rparr>"

definition isEventTriggered :: "string \<Rightarrow> ControllerManagerThread \<Rightarrow> bool" where
  "isEventTriggered event_name m =
     (case triggered_events m event_name of None \<Rightarrow> False | Some b \<Rightarrow> b)"

definition handleEventStateChanges :: "string \<Rightarrow> ControllerManagerThread \<Rightarrow> ControllerManagerThread" where
  "handleEventStateChanges event_name m =
     (case event_state_change_callback m of
        None \<Rightarrow> m
      | Some f \<Rightarrow> m\<lparr>state := f event_name (state m)\<rparr>)"

subsection \<open>event\_bus.hpp: the bus\<close>

record EventStats =
  total_events :: nat
  processed_events :: nat
  dropped_events :: nat
  timeout_events :: nat

definition EventStats_zero :: EventStats where
  "EventStats_zero = \<lparr>total_events = 0, processed_events = 0, dropped_events = 0, timeout_events = 0\<rparr>"

text \<open>The statistics of an event, without \<^verbatim>\<open>last_reset\<close> (a wall-clock time). The only
  subscribers of the repository are the manager's handlers, so the table maps
  an event to the names its handlers captured, in the order of subscription. A name
  without an entry in \<^verbatim>\<open>event_stats\<close> has the zero statistics that \<^verbatim>\<open>operator[]\<close>
  would create.\<close>

record EventBus =
  subscribers :: "string \<Rightarrow> string list"
  event_queue :: "string list"
  bus_running :: bool
  event_stats :: "string \<Rightarrow> EventStats"

definition MAX_WORKERS :: nat where "MAX_WORKERS = 4"
definition MAX_QUEUE_SIZE :: nat where "MAX_QUEUE_SIZE = 1000"

definition EventBus_init :: EventBus where
  "EventBus_init =
     \<lparr>subscribers = (\<lambda>e. []), event_queue = [], bus_running = True,
      event_stats = (\<lambda>e. EventStats_zero)\<rparr>"

definition subscribe :: "string \<Rightarrow> string \<Rightarrow> EventBus \<Rightarrow> EventBus" where
  "subscribe event handler b = b\<lparr>subscribers := (subscribers b)(event := subscribers b event @ [handler])\<rparr>"

definition publish :: "string \<Rightarrow> EventBus \<Rightarrow> EventBus" where
  "publish event b =
     (if \<not> bus_running b then b
      else (let stats = (event_stats b event)\<lparr>total_events := total_events (event_stats b event) + 1\<rparr>
            in if length (event_queue b) \<ge> MAX_QUEUE_SIZE
               then b\<lparr>event_stats := (event_stats b)(event := stats\<lparr>dropped_events := dropped_events stats + 1\<rparr>)\<rparr>
               else b\<lparr>event_stats := (event_stats b)(event := stats),
                      event_queue := event_queue b @ [event]\<rparr>))"

definition setupEventHandlers :: "ControllerManagerThread \<Rightarrow> EventBus \<Rightarrow> EventBus" where
  "setupEventHandlers m b = fold (\<lambda>entry. subscribe (fst entry) (fst entry)) (event_definitions m) b"

text \<open>A bus worker, \<^verbatim>\<open>workerThread\<close>, with the callback that \<^verbatim>\<open>setupEventHandlers\<close>
  subscribed inlined: where the thread stands, and its next move. The queue is popped under
  the bus mutex; the callbacks run outside it, and inside a callback \<^verbatim>\<open>isEventTriggered\<close>
  and \<^verbatim>\<open>markEventTriggered\<close> take \<^verbatim>\<open>events_mutex\<close> separately, so the test and the mark
  are two moves, and each action of the list is a move.

  \<^item> \<open>Idle\<close>: at \<^verbatim>\<open>cv.wait\<close>; the move pops the oldest item, or ends the thread when the
    bus is not running; with an empty queue the thread is asleep (\<^const>\<open>None\<close>).
  \<^item> \<open>Popped item\<close>: \<^verbatim>\<open>subscribers.find(item.event)\<close>.
  \<^item> \<open>In_loop item hs\<close>: the \<^verbatim>\<open>for\<close> loop over the callbacks, \<open>hs\<close> the event names captured
    by the callbacks still to call. The move calls the first one up to its test of
    \<^verbatim>\<open>isEventTriggered\<close> and the lookup of the definition.
  \<^item> \<open>Cb_mark\<close>, \<open>Cb_state_change\<close>, \<open>Cb_actions\<close>: inside the callback for \<open>event_name\<close>,
    before \<^verbatim>\<open>markEventTriggered\<close>, before \<^verbatim>\<open>handleEventStateChanges\<close>, and in the loop of
    \<^verbatim>\<open>executeControllerActions\<close> with the actions still to execute.
  \<^item> \<open>After_callback\<close>: the callback has returned; the move is \<^verbatim>\<open>stats.processed_events++\<close>.\<close>

datatype bus_worker =
    Idle
  | Popped string
  | In_loop string "string list"
  | Cb_mark string "string list" string "ControllerAction list"
  | Cb_state_change string "string list" string "ControllerAction list"
  | Cb_actions string "string list" string "ControllerAction list"
  | After_callback string "string list"
  | Exited

fun worker_move ::
  "bus_worker \<Rightarrow> EventBus \<times> ControllerManagerThread
     \<Rightarrow> (bus_worker \<times> EventBus \<times> ControllerManagerThread) option" where
  "worker_move Idle (b, m) =
     (if \<not> bus_running b then Some (Exited, b, m)
      else (case event_queue b of
              [] \<Rightarrow> None
            | item # rest \<Rightarrow> Some (Popped item, b\<lparr>event_queue := rest\<rparr>, m)))"
| "worker_move (Popped item) (b, m) = Some (In_loop item (subscribers b item), b, m)"
| "worker_move (In_loop item []) (b, m) = Some (Idle, b, m)"
| "worker_move (In_loop item (event_name # hs)) (b, m) =
     (if isEventTriggered event_name m
      then Some (After_callback item hs, b, m\<lparr>mlog := mlog m @ [LogAlreadyTriggered event_name]\<rparr>)
      else (case map_of (event_definitions m) event_name of
              None \<Rightarrow> Some (After_callback item hs, b, m)
            | Some d \<Rightarrow> Some (Cb_mark item hs event_name (actions d), b, m)))"
| "worker_move (Cb_mark item hs event_name as) (b, m) =
     Some (Cb_state_change item hs event_name as, b, markEventTriggered event_name m)"
| "worker_move (Cb_state_change item hs event_name as) (b, m) =
     Some (Cb_actions item hs event_name as, b, handleEventStateChanges event_name m)"
| "worker_move (Cb_actions item hs event_name []) (b, m) = Some (After_callback item hs, b, m)"
| "worker_move (Cb_actions item hs event_name (a # as)) (b, m) =
     Some (Cb_actions item hs event_name as, b, executeControllerAction a m)"
| "worker_move (After_callback item hs) (b, m) =
     Some (In_loop item hs,
           b\<lparr>event_stats := (event_stats b)(item :=
               (event_stats b item)\<lparr>processed_events := processed_events (event_stats b item) + 1\<rparr>)\<rparr>,
           m)"
| "worker_move Exited (b, m) = None"

subsection \<open>event\_detection.hpp: the monitor\<close>

text \<open>One round of the \<^verbatim>\<open>for\<close> loop of \<^verbatim>\<open>check_events\<close> for an entry of the table, on the
  monitor's latch table and the bus. Only the monitor thread reads or writes the latch
  table.\<close>

definition check_event ::
  "SharedStateSpace \<Rightarrow> string \<times> EventDefinition \<Rightarrow> (string \<rightharpoonup> bool) \<times> EventBus \<Rightarrow> (string \<rightharpoonup> bool) \<times> EventBus" where
  "check_event st entry lb =
     (let local_triggered_events = fst lb; b = snd lb;
          already_triggered = (case local_triggered_events (fst entry) of None \<Rightarrow> False | Some t \<Rightarrow> t)
      in if \<not> already_triggered \<and> trigger_condition (snd entry) st
         then (local_triggered_events(fst entry \<mapsto> True), publish (fst entry) b)
         else lb)"

text \<open>The event runtime of a scenario: the monitor with its latch table and its place in
  the table (the association list of the scenario), the bus with its \<^const>\<open>MAX_WORKERS\<close>
  worker threads, and the manager with the shared state. Its actions, interleaved in any
  order: the monitor checks the next entry of the table against the shared state as it is
  then (at the end of the table it starts over, at the next tick); the \<open>i\<close>-th bus worker
  makes its next move, if it has one; another thread changes the shared state.\<close>

record event_system =
  local_triggered :: "string \<rightharpoonup> bool"
  monitor_pc :: nat
  bus :: EventBus
  workers :: "bus_worker list"
  manager :: ControllerManagerThread
  scenario_events :: "(string \<times> EventDefinition) list"

datatype event_action =
    Monitor_Check
  | Worker_Move nat
  | Other_Worker "SharedStateSpace \<Rightarrow> SharedStateSpace"

fun event_step :: "event_action \<Rightarrow> event_system \<Rightarrow> event_system" where
  "event_step Monitor_Check s =
     (if monitor_pc s < length (scenario_events s)
      then (let lb = check_event (state (manager s)) (scenario_events s ! monitor_pc s)
                       (local_triggered s, bus s)
            in s\<lparr>local_triggered := fst lb, bus := snd lb, monitor_pc := monitor_pc s + 1\<rparr>)
      else s\<lparr>monitor_pc := 0\<rparr>)"
| "event_step (Worker_Move i) s =
     (if i < length (workers s)
      then (case worker_move (workers s ! i) (bus s, manager s) of
              None \<Rightarrow> s
            | Some wbm \<Rightarrow>
                s\<lparr>workers := (workers s)[i := fst wbm], bus := fst (snd wbm), manager := snd (snd wbm)\<rparr>)
      else s)"
| "event_step (Other_Worker f) s = s\<lparr>manager := (manager s)\<lparr>state := f (state (manager s))\<rparr>\<rparr>"

definition run_events :: "event_action list \<Rightarrow> event_system \<Rightarrow> event_system" where
  "run_events acts s = fold event_step acts s"

text \<open>The start of a run, as \<^verbatim>\<open>main\<close> wires it: a fresh bus with its workers waiting, a
  fresh manager, the scenario's table given to both the manager and the monitor, the
  handlers subscribed once.\<close>

definition event_system_init ::
  "SharedStateSpace \<Rightarrow> ControllerActionsConfig \<Rightarrow> (string \<times> EventDefinition) list \<Rightarrow> event_system" where
  "event_system_init st c defs =
     (let m = setEventDefinitions defs (ControllerManagerThread_init st c)
      in \<lparr>local_triggered = Map.empty, monitor_pc = 0, bus = setupEventHandlers m EventBus_init,
          workers = replicate MAX_WORKERS Idle, manager = m, scenario_events = defs\<rparr>)"

subsection \<open>data\_recorder.hpp: the CSV file logger\<close>








text \<open>A number as \<^verbatim>\<open>std::fixed\<close> with \<^verbatim>\<open>std::setprecision(n)\<close> writes it: rounded to
  \<open>n\<close> decimals, to the nearest, a tie to the even digit.\<close>

definition round_half_even :: "real \<Rightarrow> int" where
  "round_half_even x =
     (let f = \<lfloor>x\<rfloor>; r = x - of_int f
      in if r < 1 / 2 then f else if r > 1 / 2 then f + 1 else if even f then f else f + 1)"








subsection \<open>simulation\_clock.hpp\<close>

record SimulationClock =
  time_steps :: "64 word"
  clock_dt :: real
  running :: bool
  current_time :: real
  registered_threads :: "32 word"
  waiting_threads :: "32 word"
  completed_threads :: "32 word"
  paused :: bool

definition SimulationClock_init :: SimulationClock where
  "SimulationClock_init =
     \<lparr>time_steps = 0, clock_dt = 0.01, running = False, current_time = 0.0,
      registered_threads = 0, waiting_threads = 0, completed_threads = 0, paused = False\<rparr>"

definition registerThread :: "SimulationClock \<Rightarrow> SimulationClock" where
  "registerThread c = c\<lparr>registered_threads := registered_threads c + 1\<rparr>"

definition unregisterThread :: "SimulationClock \<Rightarrow> SimulationClock" where
  "unregisterThread c = c\<lparr>registered_threads := registered_threads c - 1\<rparr>"

definition notifyStepCompleted :: "SimulationClock \<Rightarrow> SimulationClock" where
  "notifyStepCompleted c = c\<lparr>completed_threads := completed_threads c + 1\<rparr>"

definition stop :: "SimulationClock \<Rightarrow> SimulationClock" where
  "stop c = c\<lparr>running := False\<rparr>"

definition pause :: "SimulationClock \<Rightarrow> SimulationClock" where
  "pause c = c\<lparr>paused := True\<rparr>"

definition resume :: "SimulationClock \<Rightarrow> SimulationClock" where
  "resume c = c\<lparr>paused := False\<rparr>"

definition setTimeStep :: "real \<Rightarrow> SimulationClock \<Rightarrow> SimulationClock" where
  "setTimeStep new_dt c = c\<lparr>clock_dt := new_dt\<rparr>"

text \<open>Publishing a tick: \<^verbatim>\<open>current_time += dt; time_steps++; cv_step_start.notify_all()\<close>.\<close>

definition advance :: "SimulationClock \<Rightarrow> SimulationClock" where
  "advance c = c\<lparr>current_time := current_time c + clock_dt c, time_steps := time_steps c + 1\<rparr>"

text \<open>The predicates of the two waits of \<^verbatim>\<open>start()\<close>, on \<^verbatim>\<open>cv_step_end\<close> and on
  \<^verbatim>\<open>cv_step_start\<close>. \<^verbatim>\<open>cv.wait(lock, pred)\<close> is \<^verbatim>\<open>while (!pred()) cv.wait(lock)\<close>: the
  predicate is tested under the mutex; when it fails the thread releases the mutex and
  sleeps until the condition variable is notified (or it wakes spuriously), and then tests
  again.\<close>

definition step_end_pred :: "SimulationClock \<Rightarrow> bool" where
  "step_end_pred c = (sint (completed_threads c) \<ge> sint (registered_threads c) \<or> \<not> running c)"

definition pause_pred :: "SimulationClock \<Rightarrow> bool" where
  "pause_pred c = (\<not> paused c \<or> \<not> running c)"

text \<open>\<^verbatim>\<open>start()\<close> as a thread: where it stands, and its next move. \<^const>\<open>None\<close> is a
  thread that cannot move by itself: asleep in a wait, or returned.

  \<^item> \<open>At_entry\<close>: the call; the move is everything up to the first tick.
  \<^item> \<open>At_loop_head\<close>: the test of \<^verbatim>\<open>while (running)\<close>; the mutex is free.
  \<^item> \<open>At_step_end_wait\<close>: about to take the mutex and test the predicate of
    \<^verbatim>\<open>cv_step_end.wait\<close> (for the first time, or after a wake-up).
  \<^item> \<open>Blocked_step_end\<close>: asleep on \<^verbatim>\<open>cv_step_end\<close>, the mutex released.
  \<^item> \<open>After_step_end_wait\<close>: \<^verbatim>\<open>if (!running) break; completed_threads = 0;\<close>
  \<^item> \<open>At_pause_check\<close>: the test of \<^verbatim>\<open>while (paused && running)\<close>.
  \<^item> \<open>At_pause_wait\<close>, \<open>Woken_pause\<close>: the test of the predicate of
    \<^verbatim>\<open>cv_step_start.wait\<close>, for the first time (mutex held) and after a wake-up.
  \<^item> \<open>Blocked_pause\<close>: asleep on \<^verbatim>\<open>cv_step_start\<close>, the mutex released.
  \<^item> \<open>After_pause_wait\<close>: \<^verbatim>\<open>if (!running) break;\<close> inside the pause loop.
  \<^item> \<open>After_pause\<close>: \<^verbatim>\<open>if (!running) break;\<close> and the tick; the mutex is released at
    the end of the loop body.\<close>

datatype start_pc =
    At_entry
  | At_loop_head
  | At_step_end_wait
  | Blocked_step_end
  | After_step_end_wait
  | At_pause_check
  | At_pause_wait
  | Blocked_pause
  | Woken_pause
  | After_pause_wait
  | After_pause
  | Returned

fun start_move :: "start_pc \<Rightarrow> SimulationClock \<Rightarrow> (start_pc \<times> SimulationClock) option" where
  "start_move At_entry c =
     (if running c then Some (Returned, c)
      else Some (At_loop_head, advance (c\<lparr>running := True, paused := False\<rparr>)))"
| "start_move At_loop_head c =
     (if running c then Some (At_step_end_wait, c) else Some (Returned, c))"
| "start_move At_step_end_wait c =
     (if step_end_pred c then Some (After_step_end_wait, c) else Some (Blocked_step_end, c))"
| "start_move Blocked_step_end c = None"
| "start_move After_step_end_wait c =
     (if \<not> running c then Some (Returned, c)
      else Some (At_pause_check, c\<lparr>completed_threads := 0\<rparr>))"
| "start_move At_pause_check c =
     (if paused c \<and> running c then Some (At_pause_wait, c) else Some (After_pause, c))"
| "start_move At_pause_wait c =
     (if pause_pred c then Some (After_pause_wait, c) else Some (Blocked_pause, c))"
| "start_move Blocked_pause c = None"
| "start_move Woken_pause c =
     (if pause_pred c then Some (After_pause_wait, c) else Some (Blocked_pause, c))"
| "start_move After_pause_wait c =
     (if \<not> running c then Some (After_pause, c) else Some (At_pause_check, c))"
| "start_move After_pause c =
     (if \<not> running c then Some (Returned, c) else Some (At_loop_head, advance c))"
| "start_move Returned c = None"

text \<open>Where \<^verbatim>\<open>start()\<close> holds the mutex \<^verbatim>\<open>mtx\<close>: from a passed test of the barrier
  predicate to the end of the loop body, except while asleep.\<close>

fun holds_mtx :: "start_pc \<Rightarrow> bool" where
  "holds_mtx After_step_end_wait = True"
| "holds_mtx At_pause_check = True"
| "holds_mtx At_pause_wait = True"
| "holds_mtx After_pause_wait = True"
| "holds_mtx After_pause = True"
| "holds_mtx pc = False"

text \<open>A notification of \<^verbatim>\<open>cv_step_end\<close>, resp. \<^verbatim>\<open>cv_step_start\<close>, as the clock sees it:
  it wakes the clock if the clock is asleep on that condition variable, and is lost
  otherwise.\<close>

fun notify_step_end :: "start_pc \<Rightarrow> start_pc" where
  "notify_step_end Blocked_step_end = At_step_end_wait"
| "notify_step_end pc = pc"

fun notify_step_start :: "start_pc \<Rightarrow> start_pc" where
  "notify_step_start Blocked_pause = Woken_pause"
| "notify_step_start pc = pc"

text \<open>The clock and the threads around it, as interleaved atomic actions.
  \<^verbatim>\<open>registerThread\<close>, \<^verbatim>\<open>unregisterThread\<close>, \<^verbatim>\<open>pause\<close> and \<^verbatim>\<open>resume\<close> write an atomic
  and notify nobody. \<^verbatim>\<open>notifyStepCompleted\<close> takes the mutex, so it waits while the clock
  holds it (the action then has no effect yet), counts, and notifies \<^verbatim>\<open>cv_step_end\<close>.
  \<^verbatim>\<open>stop\<close> notifies both condition variables. A sleeping thread may also wake with no
  notification.\<close>

datatype clock_action =
    Clock_Move
  | Worker_Register
  | Worker_Unregister
  | Worker_Completed
  | Ctl_Pause
  | Ctl_Resume
  | Ctl_Stop
  | Spurious_Wakeup

fun clock_step :: "clock_action \<Rightarrow> start_pc \<times> SimulationClock \<Rightarrow> start_pc \<times> SimulationClock" where
  "clock_step Clock_Move (pc, c) = (case start_move pc c of None \<Rightarrow> (pc, c) | Some pcc \<Rightarrow> pcc)"
| "clock_step Worker_Register (pc, c) = (pc, registerThread c)"
| "clock_step Worker_Unregister (pc, c) = (pc, unregisterThread c)"
| "clock_step Worker_Completed (pc, c) =
     (if holds_mtx pc then (pc, c) else (notify_step_end pc, notifyStepCompleted c))"
| "clock_step Ctl_Pause (pc, c) = (pc, pause c)"
| "clock_step Ctl_Resume (pc, c) = (pc, resume c)"
| "clock_step Ctl_Stop (pc, c) = (notify_step_start (notify_step_end pc), stop c)"
| "clock_step Spurious_Wakeup (pc, c) = (notify_step_start (notify_step_end pc), c)"

definition run_clock :: "clock_action list \<Rightarrow> start_pc \<times> SimulationClock \<Rightarrow> start_pc \<times> SimulationClock" where
  "run_clock acts pcc = fold clock_step acts pcc"

subsection \<open>Auxiliary notions for the proofs\<close>

text \<open>The flight-mode name an action carries under a given action table: the value of
  \<^verbatim>\<open>flight_mode\<close> in the settings of an action whose type is \<^verbatim>\<open>MODE\<close>.\<close>

definition mode_of_action :: "ControllerAction \<Rightarrow> ControllerActionsConfig \<Rightarrow> string option" where
  "mode_of_action a c =
     (case fst (getActionConfig (getActionName a) c) of
        None \<Rightarrow> None
      | Some config \<Rightarrow>
          if action_type config = ''MODE'' then map_of (state_settings config) ''flight_mode''
          else None)"

text \<open>A manager as the scenario builds it: the state as constructed (manual mode), no
  action table loaded yet, the five controllers stopped.\<close>

definition manual_manager :: ControllerManagerThread where
  "manual_manager = ControllerManagerThread_init SharedStateSpace_init ControllerActionsConfig_init"

text \<open>The same manager after a switch to automatic mode.\<close>

definition auto_manager :: ControllerManagerThread where
  "auto_manager = manual_manager\<lparr>state := setFlightMode AUTO (state manual_manager)\<rparr>"


text \<open>The part of the net force that does not come from the brake: thrust minus drag, as
  \<^const>\<open>calculateNetForce\<close> computes them from the state.\<close>

definition unbraked_force :: "SharedStateSpace \<Rightarrow> AircraftConfigBase \<Rightarrow> real" where
  "unbraked_force st cfg =
     throttle st * getMaxThrust cfg
       - 0.5 * AIR_DENSITY * FRONTAL_AREA * getDragCoefficient cfg * velocity st * velocity st"


text \<open>The values of the Velocity messages of a queue, oldest first.\<close>

definition velocity_values :: "StateUpdateQueue \<Rightarrow> real list" where
  "velocity_values q = map msg_value (filter (\<lambda>m. msg_type m = Velocity) q)"

text \<open>Concrete states of a run: the throttle ramp enabled from rest; the end of a braking
  run (full brake, 0.01 m/s left); creeping below the standstill threshold; cruise
  enabled at 50 m/s with a target speed of 30 m/s seeded by the scenario. And one
  schedule of a tick: the integrator's step, then the state manager takes the three
  messages.\<close>

definition tick_schedule :: "AircraftConfigBase \<Rightarrow> real \<Rightarrow> worker_action list" where
  "tick_schedule aircraftConfig clock_time =
     [Act_Dynamics aircraftConfig clock_time, Act_ManagerPop, Act_ManagerPop, Act_ManagerPop]"

definition ramp_state :: sim where
  "ramp_state = \<lparr>shared = SharedStateSpace_init\<lparr>throttle_control_enabled := True\<rparr>, queue = []\<rparr>"

definition braking_state :: sim where
  "braking_state = \<lparr>shared = SharedStateSpace_init\<lparr>velocity := 0.01, brake := 1\<rparr>, queue = []\<rparr>"

definition creeping_state :: sim where
  "creeping_state = \<lparr>shared = SharedStateSpace_init\<lparr>position := 30, velocity := 0.005\<rparr>, queue = []\<rparr>"

definition cruise_state :: sim where
  "cruise_state =
     \<lparr>shared = SharedStateSpace_init\<lparr>cruise_control_enabled := True, target_speed := 30, velocity := 50\<rparr>,
      queue = []\<rparr>"





text \<open>\<open>n\<close> ticks published in a row, and the clock right after \<^verbatim>\<open>start()\<close> published
  its first tick with nobody registered.\<close>

fun advance_n :: "nat \<Rightarrow> SimulationClock \<Rightarrow> SimulationClock" where
  "advance_n 0 c = c"
| "advance_n (Suc n) c = advance_n n (advance c)"

definition started_clock :: SimulationClock where
  "started_clock = advance (SimulationClock_init\<lparr>running := True\<rparr>)"


text \<open>The bookkeeping of a run, for an event name \<open>n\<close>. The bus counts the publications
  of \<open>n\<close> in \<^const>\<open>total_events\<close>, and the monitor publishes only when it closes its
  latch. The manager logs \<^const>\<open>LogEventTriggered\<close> in \<^verbatim>\<open>markEventTriggered\<close>, which a
  callback calls exactly when it goes on to execute the event's action list. Every such
  mark comes from a publication: the marks made, the copies of \<open>n\<close> in the queue and the
  marks the workers may still make for the items they hold (\<open>pending\<close>) together never
  exceed the publications.\<close>

definition publish_once :: "(string \<rightharpoonup> bool) \<Rightarrow> EventBus \<Rightarrow> bool" where
  "publish_once l b = (\<forall>n. total_events (event_stats b n) \<le> (if l n = Some True then 1 else 0))"

definition one_handler :: "EventBus \<Rightarrow> bool" where
  "one_handler b = (\<forall>e n. count_list (subscribers b e) n \<le> (if e = n then 1 else 0))"

fun pending :: "string \<Rightarrow> bus_worker \<Rightarrow> nat" where
  "pending n Idle = 0"
| "pending n (Popped item) = (if item = n then 1 else 0)"
| "pending n (In_loop item hs) = count_list hs n"
| "pending n (Cb_mark item hs event_name as) = count_list (event_name # hs) n"
| "pending n (Cb_state_change item hs event_name as) = count_list hs n"
| "pending n (Cb_actions item hs event_name as) = count_list hs n"
| "pending n (After_callback item hs) = count_list hs n"
| "pending n Exited = 0"

definition marks :: "string \<Rightarrow> ControllerManagerThread \<Rightarrow> nat" where
  "marks n m = count_list (mlog m) (LogEventTriggered n)"

definition event_budget :: "event_system \<Rightarrow> bool" where
  "event_budget s =
     (publish_once (local_triggered s) (bus s) \<and> one_handler (bus s)
      \<and> (\<forall>n. marks n (manager s) + count_list (event_queue (bus s)) n
                + sum_list (map (pending n) (workers s))
              \<le> total_events (event_stats (bus s) n)))"

text \<open>A table with one event in the shape of the Taxi scenario's \<^verbatim>\<open>START_THROTTLE\<close>
  (descriptions left empty), a run in automatic mode at the first second, and a schedule
  for it: the monitor checks the entry, worker 0 pops the item and runs the callback to its
  end while worker 1 finds the queue empty, and the monitor comes to the entry again at
  the next tick.\<close>

definition taxi_start_throttle :: "(string \<times> EventDefinition) list" where
  "taxi_start_throttle =
     [(''START_THROTTLE'',
       \<lparr>name = ''START_THROTTLE'', description = [],
        trigger_condition =
          (\<lambda>s. simulation_started s \<and> simulation_running s \<and> simulation_time s \<ge> 1.0),
        actions = [START_THROTTLE_INCREASE], response_description = [], triggered = False\<rparr>)]"

definition taxi_after_one_second :: event_system where
  "taxi_after_one_second =
     event_system_init
       (setFlightMode AUTO
          (SharedStateSpace_init\<lparr>simulation_started := True, simulation_running := True,
             simulation_time := 1.0\<rparr>))
       ControllerActionsConfig_init taxi_start_throttle"

definition taxi_schedule :: "event_action list" where
  "taxi_schedule =
     [Monitor_Check, Worker_Move 0, Worker_Move 1, Worker_Move 0, Worker_Move 0, Worker_Move 0,
      Worker_Move 0, Worker_Move 0, Worker_Move 0, Worker_Move 0, Worker_Move 0,
      Monitor_Check, Monitor_Check, Worker_Move 1]"


section \<open>Properties\<close>


subsection \<open>The snapshot pair (C10)\<close>

lemma getState_fold_updateState: "getState (fold updateState news s) = getState s"
  by (induction news arbitrary: s) (simp_all add: getState_def updateState_def)

text \<open>
  Claim C10. \<^verbatim>\<open>updateState\<close> changes the committed record \<^const>\<open>current_state\<close> and adds
  exactly one to \<^const>\<open>state_version\<close>, and nothing else: putting the two fields back
  gives the state before. \<^verbatim>\<open>getState\<close> returns the snapshot made of the current values
  of the twelve scalar fields, each in its own component; it does not depend on
  \<^const>\<open>current_state\<close>, so its value is the same after one or after any sequence of
  \<^verbatim>\<open>updateState\<close> calls, and it is not the committed record: after
  \<^verbatim>\<open>updateState\<close> it still shows the fields.
\<close>

theorem updateState_getState_decoupled:
  "getState s =
     \<lparr>snap_position = position s, snap_velocity = velocity s,
      snap_acceleration = acceleration s, snap_throttle = throttle s, snap_brake = brake s,
      snap_thrust = thrust s, snap_drag_force = drag_force s,
      snap_brake_force = brake_force s, snap_simulation_time = simulation_time s,
      snap_pitch_angle = pitch_angle s, snap_pitch_rate = pitch_rate s,
      snap_pitch_control_output = pitch_control_output s\<rparr>
   \<and> getState (updateState new_state s) =
     \<lparr>snap_position = position s, snap_velocity = velocity s,
      snap_acceleration = acceleration s, snap_throttle = throttle s, snap_brake = brake s,
      snap_thrust = thrust s, snap_drag_force = drag_force s,
      snap_brake_force = brake_force s, snap_simulation_time = simulation_time s,
      snap_pitch_angle = pitch_angle s, snap_pitch_rate = pitch_rate s,
      snap_pitch_control_output = pitch_control_output s\<rparr>
   \<and> getState (updateState new_state s) = getState s
   \<and> getState (fold updateState news s) = getState s
   \<and> getState (s\<lparr>current_state := c\<rparr>) = getState s
   \<and> current_state (updateState new_state s) = new_state
   \<and> state_version (updateState new_state s) = state_version s + 1
   \<and> (updateState new_state s)\<lparr>current_state := current_state s, state_version := state_version s\<rparr> = s"
  by (simp add: getState_fold_updateState) (simp add: getState_def updateState_def)

subsection \<open>Flight mode and authority (C7)\<close>

lemma control_auth_applyStateSetting: "control_auth (applyStateSetting kv s) = control_auth s"
  by (simp add: applyStateSetting_def Let_def)

lemma control_auth_applyStateSettings: "control_auth (applyStateSettings ss s) = control_auth s"
  unfolding applyStateSettings_def
  by (induction ss arbitrary: s) (simp_all add: control_auth_applyStateSetting)

lemma getActionConfig_again:
  "getActionConfig a (snd (getActionConfig a c)) = getActionConfig a c"
  by (simp add: getActionConfig_def Let_def loadDefaultConfig_def)

lemma setFlightMode_by_name_twice:
  "setFlightMode_by_name v (setFlightMode_by_name v s) = setFlightMode_by_name v s"
  by (simp add: setFlightMode_by_name_def)

lemma startController_frame:
  "state (startController n m) = state m \<and> actions_config (startController n m) = actions_config m"
  by (simp add: startController_def split: option.splits)

lemma stopController_frame:
  "state (stopController n m) = state m \<and> actions_config (stopController n m) = actions_config m"
  by (simp add: stopController_def split: option.splits)

lemma stopAllControllers_frame:
  "state (stopAllControllers m) = state m \<and> actions_config (stopAllControllers m) = actions_config m"
  by (simp add: stopAllControllers_def)

lemma executeControllerAction_actions_config:
  "actions_config (executeControllerAction a m) = snd (getActionConfig (getActionName a) (actions_config m))"
  by (simp add: executeControllerAction_def Let_def startController_frame stopController_frame
      stopAllControllers_frame split: option.splits)

lemma executeControllerAction_control_auth:
  "control_auth (state (executeControllerAction a m)) =
     (case mode_of_action a (actions_config m) of
        None \<Rightarrow> control_auth (state m)
      | Some v \<Rightarrow> control_auth (setFlightMode_by_name v (state m)))"
  by (simp add: executeControllerAction_def mode_of_action_def Let_def startController_frame
      stopController_frame stopAllControllers_frame control_auth_applyStateSettings
      split: option.splits)

lemma mode_of_action_again:
  "mode_of_action a (snd (getActionConfig (getActionName a) c)) = mode_of_action a c"
  by (simp add: mode_of_action_def getActionConfig_again)


lemma control_auth_setFlightMode_by_name_stable:
  "control_auth s = control_auth (setFlightMode_by_name v s0) \<Longrightarrow>
   control_auth (setFlightMode_by_name v s) = control_auth s"
  by (simp add: setFlightMode_by_name_def split: if_splits)

lemma executeControllerAction_twice_control_auth:
  "control_auth (state (executeControllerAction a (executeControllerAction a m))) =
   control_auth (state (executeControllerAction a m))"
proof (cases "mode_of_action a (actions_config m)")
  case None
  then show ?thesis
    by (simp add: executeControllerAction_control_auth executeControllerAction_actions_config
        mode_of_action_again)
next
  case (Some v)
  have once: "control_auth (state (executeControllerAction a m)) =
      control_auth (setFlightMode_by_name v (state m))"
    by (simp add: executeControllerAction_control_auth Some)
  have "control_auth (state (executeControllerAction a (executeControllerAction a m))) =
      control_auth (setFlightMode_by_name v (state (executeControllerAction a m)))"
    by (simp add: executeControllerAction_control_auth executeControllerAction_actions_config
        mode_of_action_again Some)
  also have "\<dots> = control_auth (state (executeControllerAction a m))"
    by (rule control_auth_setFlightMode_by_name_stable [OF once])
  finally show ?thesis .
qed

lemma default_mode_actions:
  "mode_of_action SWITCH_TO_AUTO_MODE loadDefaultConfig = Some ''AUTO''"
  "mode_of_action SWITCH_TO_MANUAL_MODE loadDefaultConfig = Some ''MANUAL''"
  "mode_of_action SWITCH_TO_SEMI_AUTO_MODE loadDefaultConfig = Some ''SEMI_AUTO''"
  by (simp_all add: mode_of_action_def getActionConfig_def loadDefaultConfig_def mk_config_def)

text \<open>
  Claim C7. \<^verbatim>\<open>setFlightMode\<close> sets the four authority flags as a group: after
  \<^const>\<open>AUTO\<close> the pilot flags are false and the auto-system flags true, after
  \<^const>\<open>MANUAL\<close> the complement, after \<^const>\<open>SEMI_AUTO\<close> all four are true; the three
  mode actions of the default action table reach these cases; and executing any action a
  second time leaves the authority flags as the first execution left them.
\<close>

theorem setFlightMode_authority_bits:
  "control_auth (setFlightMode AUTO s) =
     \<lparr>pilot_has_throttle_control = False, pilot_has_brake_control = False,
      auto_system_has_throttle_control = True, auto_system_has_brake_control = True\<rparr>
   \<and> control_auth (setFlightMode MANUAL s) =
     \<lparr>pilot_has_throttle_control = True, pilot_has_brake_control = True,
      auto_system_has_throttle_control = False, auto_system_has_brake_control = False\<rparr>
   \<and> control_auth (setFlightMode SEMI_AUTO s) =
     \<lparr>pilot_has_throttle_control = True, pilot_has_brake_control = True,
      auto_system_has_throttle_control = True, auto_system_has_brake_control = True\<rparr>
   \<and> control_auth (state (executeControllerAction SWITCH_TO_AUTO_MODE (m\<lparr>actions_config := loadDefaultConfig\<rparr>))) =
       control_auth (setFlightMode AUTO (state m))
   \<and> control_auth (state (executeControllerAction SWITCH_TO_MANUAL_MODE (m\<lparr>actions_config := loadDefaultConfig\<rparr>))) =
       control_auth (setFlightMode MANUAL (state m))
   \<and> control_auth (state (executeControllerAction SWITCH_TO_SEMI_AUTO_MODE (m\<lparr>actions_config := loadDefaultConfig\<rparr>))) =
       control_auth (setFlightMode SEMI_AUTO (state m))
   \<and> control_auth (state (executeControllerAction a (executeControllerAction a m))) =
       control_auth (state (executeControllerAction a m))
   \<and> control_auth (state (executeControllerActions [a, a] m)) =
       control_auth (state (executeControllerActions [a] m))"
proof (intro conjI)
  show "control_auth (state (executeControllerAction a (executeControllerAction a m))) =
      control_auth (state (executeControllerAction a m))"
    by (rule executeControllerAction_twice_control_auth)
  then show "control_auth (state (executeControllerActions [a, a] m)) =
      control_auth (state (executeControllerActions [a] m))"
    by (simp add: executeControllerActions_def)
qed (simp_all add: executeControllerAction_control_auth default_mode_actions
    setFlightMode_by_name_def)

theorem setFlightMode_authority_bits_witness:
  "control_auth (state (executeControllerActions [SWITCH_TO_AUTO_MODE, SWITCH_TO_AUTO_MODE]
      (ControllerManagerThread_init SharedStateSpace_init ControllerActionsConfig_init))) =
     \<lparr>pilot_has_throttle_control = False, pilot_has_brake_control = False,
      auto_system_has_throttle_control = True, auto_system_has_brake_control = True\<rparr>"
  using setFlightMode_authority_bits [of SharedStateSpace_init
      "ControllerManagerThread_init SharedStateSpace_init ControllerActionsConfig_init"
      SWITCH_TO_AUTO_MODE]
  by (simp add: executeControllerActions_def executeControllerAction_control_auth
      mode_of_action_def getActionConfig_def loadDefaultConfig_def mk_config_def
      ControllerManagerThread_init_def ControllerActionsConfig_init_def
      setFlightMode_by_name_def)



subsection \<open>The authority gate (C8)\<close>

lemma startController_denied_throttle:
  "(n = name_throttle_increase \<or> n = name_throttle_decrease \<or> n = name_cruise_runway) \<Longrightarrow>
   \<not> auto_system_has_throttle_control (control_auth (state m)) \<Longrightarrow>
   controllers m n = Some r \<Longrightarrow>
   startController n m = m\<lparr>mlog := mlog m @ [LogLacksThrottleControl n]\<rparr>"
  by (simp add: startController_def)

lemma startController_denied_brake:
  "\<not> auto_system_has_brake_control (control_auth (state m)) \<Longrightarrow>
   controllers m name_brake = Some r \<Longrightarrow>
   startController name_brake m = m\<lparr>mlog := mlog m @ [LogLacksBrakeControl name_brake]\<rparr>"
  by (simp add: startController_def name_brake_def name_throttle_increase_def
      name_throttle_decrease_def name_cruise_runway_def)

lemma startController_started_authority:
  assumes "controllers m n = Some False" and "controllers (startController n m) n = Some True"
  shows "((n = name_throttle_increase \<or> n = name_throttle_decrease \<or> n = name_cruise_runway) \<longrightarrow>
            auto_system_has_throttle_control (control_auth (state m)))
         \<and> (n = name_brake \<longrightarrow> auto_system_has_brake_control (control_auth (state m)))"
  using assms by (auto simp add: startController_def split: if_splits)

lemma default_START_BRAKE:
  "actions_config m = loadDefaultConfig \<or> \<not> config_loaded (actions_config m) \<Longrightarrow>
   getActionConfig ''START_BRAKE'' (actions_config m) =
     (Some (mk_config name_brake
        [(''brake_control_enabled'', ''true''), (''cruise_control_enabled'', ''false'')]
        ''CONTROLLER''), loadDefaultConfig)"
  by (auto simp add: getActionConfig_def loadDefaultConfig_def Let_def)

lemma executeControllerAction_controller_state:
  assumes "fst (getActionConfig (getActionName a) (actions_config m)) = Some config"
    and "action_type config = ''CONTROLLER''"
  shows "state (executeControllerAction a m) = applyStateSettings (state_settings config) (state m)"
  using assms
  by (simp add: executeControllerAction_def Let_def startController_frame stopController_frame)

lemma START_BRAKE_without_authority:
  assumes cfg: "actions_config m = loadDefaultConfig \<or> \<not> config_loaded (actions_config m)"
    and auth: "\<not> auto_system_has_brake_control (control_auth (state m))"
    and ctl: "controllers m name_brake = Some r"
  shows "executeControllerAction START_BRAKE m =
      m\<lparr>state := (state m)\<lparr>brake_control_enabled := True, cruise_control_enabled := False\<rparr>,
        actions_config := loadDefaultConfig,
        mlog := mlog m @ [LogLacksBrakeControl name_brake,
                          LogExecutingAction ''START_BRAKE'' name_brake]\<rparr>"
proof -
  let ?m' = "m\<lparr>actions_config := loadDefaultConfig,
      state := (state m)\<lparr>brake_control_enabled := True, cruise_control_enabled := False\<rparr>\<rparr>"
  have st: "applyStateSettings
        [(''brake_control_enabled'', ''true''), (''cruise_control_enabled'', ''false'')] (state m) =
      (state m)\<lparr>brake_control_enabled := True, cruise_control_enabled := False\<rparr>"
    by (simp add: applyStateSettings_def applyStateSetting_def)
  have den: "startController name_brake ?m' = ?m'\<lparr>mlog := mlog ?m' @ [LogLacksBrakeControl name_brake]\<rparr>"
    by (rule startController_denied_brake [where r = r]) (simp_all add: auth ctl)
  show ?thesis
    unfolding executeControllerAction_def
    by (simp add: default_START_BRAKE [OF cfg] Let_def mk_config_def den st)
qed

text \<open>
  Claim C8. A controller that \<^verbatim>\<open>startController\<close> turns from stopped to running had the
  authority flag of its channel: the auto-system throttle flag for throttle increase,
  throttle decrease and runway cruise, the auto-system brake flag for the brake. Without
  the flag the call only appends its warning to the log: no controller is started and no
  state changes. \<^verbatim>\<open>executeControllerActions\<close> applies the state settings of a
  \<^verbatim>\<open>CONTROLLER\<close> action before that check, whatever the check decides; so \<^verbatim>\<open>START_BRAKE\<close>
  under the default table, without brake authority, sets \<^verbatim>\<open>brake_control_enabled\<close> (and
  clears \<^verbatim>\<open>cruise_control_enabled\<close>) and leaves every controller as it was.
\<close>

theorem startController_authority_gate:
  "(controllers m n = Some False \<and> controllers (startController n m) n = Some True \<longrightarrow>
      ((n = name_throttle_increase \<or> n = name_throttle_decrease \<or> n = name_cruise_runway) \<longrightarrow>
          auto_system_has_throttle_control (control_auth (state m)))
      \<and> (n = name_brake \<longrightarrow> auto_system_has_brake_control (control_auth (state m))))
   \<and> ((n = name_throttle_increase \<or> n = name_throttle_decrease \<or> n = name_cruise_runway)
        \<and> \<not> auto_system_has_throttle_control (control_auth (state m))
        \<and> controllers m n = Some r \<longrightarrow>
      startController n m = m\<lparr>mlog := mlog m @ [LogLacksThrottleControl n]\<rparr>)
   \<and> (\<not> auto_system_has_brake_control (control_auth (state m))
        \<and> controllers m name_brake = Some r \<longrightarrow>
      startController name_brake m = m\<lparr>mlog := mlog m @ [LogLacksBrakeControl name_brake]\<rparr>)
   \<and> (fst (getActionConfig (getActionName a) (actions_config m)) = Some config
        \<and> action_type config = ''CONTROLLER'' \<longrightarrow>
      state (executeControllerAction a m) = applyStateSettings (state_settings config) (state m))
   \<and> ((actions_config m = loadDefaultConfig \<or> \<not> config_loaded (actions_config m))
        \<and> \<not> auto_system_has_brake_control (control_auth (state m))
        \<and> controllers m name_brake = Some r \<longrightarrow>
      executeControllerAction START_BRAKE m =
        m\<lparr>state := (state m)\<lparr>brake_control_enabled := True, cruise_control_enabled := False\<rparr>,
          actions_config := loadDefaultConfig,
          mlog := mlog m @ [LogLacksBrakeControl name_brake,
                            LogExecutingAction ''START_BRAKE'' name_brake]\<rparr>)"
proof (intro conjI impI)
  assume "controllers m n = Some False \<and> controllers (startController n m) n = Some True"
  then have *: "((n = name_throttle_increase \<or> n = name_throttle_decrease \<or> n = name_cruise_runway) \<longrightarrow>
            auto_system_has_throttle_control (control_auth (state m)))
         \<and> (n = name_brake \<longrightarrow> auto_system_has_brake_control (control_auth (state m)))"
    by (intro startController_started_authority) simp_all
  {
    assume "n = name_throttle_increase \<or> n = name_throttle_decrease \<or> n = name_cruise_runway"
    with * show "auto_system_has_throttle_control (control_auth (state m))" by blast
  }
  {
    assume "n = name_brake"
    with * show "auto_system_has_brake_control (control_auth (state m))" by blast
  }
next
  assume "(n = name_throttle_increase \<or> n = name_throttle_decrease \<or> n = name_cruise_runway)
        \<and> \<not> auto_system_has_throttle_control (control_auth (state m))
        \<and> controllers m n = Some r"
  then show "startController n m = m\<lparr>mlog := mlog m @ [LogLacksThrottleControl n]\<rparr>"
    by (intro startController_denied_throttle [where r = r]) simp_all
next
  assume "\<not> auto_system_has_brake_control (control_auth (state m))
        \<and> controllers m name_brake = Some r"
  then show "startController name_brake m = m\<lparr>mlog := mlog m @ [LogLacksBrakeControl name_brake]\<rparr>"
    by (intro startController_denied_brake [where r = r]) simp_all
next
  assume "fst (getActionConfig (getActionName a) (actions_config m)) = Some config
        \<and> action_type config = ''CONTROLLER''"
  then show "state (executeControllerAction a m) = applyStateSettings (state_settings config) (state m)"
    by (intro executeControllerAction_controller_state) simp_all
next
  assume "(actions_config m = loadDefaultConfig \<or> \<not> config_loaded (actions_config m))
        \<and> \<not> auto_system_has_brake_control (control_auth (state m))
        \<and> controllers m name_brake = Some r"
  then show "executeControllerAction START_BRAKE m =
        m\<lparr>state := (state m)\<lparr>brake_control_enabled := True, cruise_control_enabled := False\<rparr>,
          actions_config := loadDefaultConfig,
          mlog := mlog m @ [LogLacksBrakeControl name_brake,
                            LogExecutingAction ''START_BRAKE'' name_brake]\<rparr>"
    by (intro START_BRAKE_without_authority [where r = r]) simp_all
qed

theorem startController_authority_gate_witness:
  "flight_mode (state manual_manager) = MANUAL
   \<and> controllers manual_manager name_brake = Some False
   \<and> brake_control_enabled (state (executeControllerAction START_BRAKE manual_manager))
   \<and> controllers (executeControllerAction START_BRAKE manual_manager) name_brake = Some False
   \<and> mlog (executeControllerAction START_BRAKE manual_manager) =
       [LogLacksBrakeControl name_brake, LogExecutingAction ''START_BRAKE'' name_brake]
   \<and> startController name_throttle_increase manual_manager =
       manual_manager\<lparr>mlog := [LogLacksThrottleControl name_throttle_increase]\<rparr>
   \<and> startController name_brake manual_manager =
       manual_manager\<lparr>mlog := [LogLacksBrakeControl name_brake]\<rparr>
   \<and> controllers (startController name_brake auto_manager) name_brake = Some True
   \<and> auto_system_has_brake_control (control_auth (state auto_manager))
   \<and> state (executeControllerAction START_BRAKE auto_manager) =
       (state auto_manager)\<lparr>brake_control_enabled := True, cruise_control_enabled := False\<rparr>"
proof -
  have a: "\<not> config_loaded (actions_config manual_manager)"
    by (simp add: manual_manager_def ControllerManagerThread_init_def ControllerActionsConfig_init_def)
  have b: "\<not> auto_system_has_brake_control (control_auth (state manual_manager))"
    by (simp add: manual_manager_def ControllerManagerThread_init_def SharedStateSpace_init_def)
  have c: "controllers manual_manager name_brake = Some False"
    by (simp add: manual_manager_def ControllerManagerThread_init_def createControllers_def
        name_brake_def name_throttle_increase_def name_throttle_decrease_def
        name_cruise_runway_def name_pitch_hold_def)
  have d: "flight_mode (state manual_manager) = MANUAL"
    by (simp add: manual_manager_def ControllerManagerThread_init_def SharedStateSpace_init_def)
  have e: "mlog manual_manager = []"
    by (simp add: manual_manager_def ControllerManagerThread_init_def)
  have f: "\<not> auto_system_has_throttle_control (control_auth (state manual_manager))"
    by (simp add: manual_manager_def ControllerManagerThread_init_def SharedStateSpace_init_def)
  have g: "controllers manual_manager name_throttle_increase = Some False"
    by (simp add: manual_manager_def ControllerManagerThread_init_def createControllers_def
        name_brake_def name_throttle_increase_def name_throttle_decrease_def
        name_cruise_runway_def name_pitch_hold_def)
  have h: "controllers auto_manager name_brake = Some False"
    by (simp add: auto_manager_def c)
  have ne: "name_brake \<noteq> name_throttle_increase" "name_brake \<noteq> name_throttle_decrease"
      "name_brake \<noteq> name_cruise_runway"
    by (simp_all add: name_brake_def name_throttle_increase_def name_throttle_decrease_def
        name_cruise_runway_def)
  have au: "auto_system_has_brake_control (control_auth (state auto_manager))"
    by (simp add: auto_manager_def)
  have i: "controllers (startController name_brake auto_manager) name_brake = Some True"
    by (simp add: startController_def h ne au)
  have j: "fst (getActionConfig (getActionName START_BRAKE) (actions_config auto_manager)) =
      Some (mk_config name_brake
        [(''brake_control_enabled'', ''true''), (''cruise_control_enabled'', ''false'')] ''CONTROLLER'')"
    by (simp add: auto_manager_def manual_manager_def ControllerManagerThread_init_def
        ControllerActionsConfig_init_def getActionConfig_def loadDefaultConfig_def)
  have k: "action_type (mk_config name_brake
        [(''brake_control_enabled'', ''true''), (''cruise_control_enabled'', ''false'')] ''CONTROLLER'') = ''CONTROLLER''"
    "state_settings (mk_config name_brake
        [(''brake_control_enabled'', ''true''), (''cruise_control_enabled'', ''false'')] ''CONTROLLER'') =
      [(''brake_control_enabled'', ''true''), (''cruise_control_enabled'', ''false'')]"
    by (simp_all add: mk_config_def)
  from startController_authority_gate [of manual_manager name_brake False START_BRAKE]
  have 1: "executeControllerAction START_BRAKE manual_manager =
        manual_manager\<lparr>state := (state manual_manager)\<lparr>brake_control_enabled := True, cruise_control_enabled := False\<rparr>,
          actions_config := loadDefaultConfig,
          mlog := mlog manual_manager @ [LogLacksBrakeControl name_brake,
                            LogExecutingAction ''START_BRAKE'' name_brake]\<rparr>"
    and 2: "startController name_brake manual_manager =
        manual_manager\<lparr>mlog := mlog manual_manager @ [LogLacksBrakeControl name_brake]\<rparr>"
    using a b c by blast+
  from startController_authority_gate [of manual_manager name_throttle_increase False]
  have 3: "startController name_throttle_increase manual_manager =
      manual_manager\<lparr>mlog := mlog manual_manager @ [LogLacksThrottleControl name_throttle_increase]\<rparr>"
    using f g by blast
  from startController_authority_gate [of auto_manager name_brake] h i
  have 4: "auto_system_has_brake_control (control_auth (state auto_manager))"
    by blast
  from startController_authority_gate [of auto_manager _ _ START_BRAKE] j k(1)
  have "state (executeControllerAction START_BRAKE auto_manager) =
      applyStateSettings (state_settings (mk_config name_brake
        [(''brake_control_enabled'', ''true''), (''cruise_control_enabled'', ''false'')] ''CONTROLLER''))
        (state auto_manager)"
    by blast
  then have 5: "state (executeControllerAction START_BRAKE auto_manager) =
       (state auto_manager)\<lparr>brake_control_enabled := True, cruise_control_enabled := False\<rparr>"
    by (simp add: k(2) applyStateSettings_def applyStateSetting_def)
  from 1 have s1: "brake_control_enabled (state (executeControllerAction START_BRAKE manual_manager))
   \<and> controllers (executeControllerAction START_BRAKE manual_manager) name_brake = Some False
   \<and> mlog (executeControllerAction START_BRAKE manual_manager) =
       [LogLacksBrakeControl name_brake, LogExecutingAction ''START_BRAKE'' name_brake]"
    by (simp add: c e)
  from 2 3 have 23: "startController name_throttle_increase manual_manager =
       manual_manager\<lparr>mlog := [LogLacksThrottleControl name_throttle_increase]\<rparr>
   \<and> startController name_brake manual_manager =
       manual_manager\<lparr>mlog := [LogLacksBrakeControl name_brake]\<rparr>"
    by (simp add: e)
  from s1 23 4 5 c d i show ?thesis by blast
qed



subsection \<open>Throttle and brake stay in the unit interval (C5)\<close>

lemma list_all_push:
  "list_all msg_in_range (push ty v q) = (list_all msg_in_range q \<and> msg_in_range \<lparr>msg_type = ty, msg_value = v\<rparr>)"
  by (simp add: push_def)

lemma increase_in_range:
  "controls_in_range x \<Longrightarrow> controls_in_range (ThrottleController_Increase_updateThrottle d x)"
  by (simp add: controls_in_range_def ThrottleController_Increase_updateThrottle_def Let_def
      list_all_push msg_in_range_def in_unit_def)

lemma decrease_in_range:
  "0 \<le> d \<Longrightarrow> controls_in_range x \<Longrightarrow> controls_in_range (ThrottleController_Decrease_updateThrottle d x)"
  by (simp add: controls_in_range_def ThrottleController_Decrease_updateThrottle_def Let_def
      list_all_push msg_in_range_def in_unit_def THROTTLE_DECREASE_RATE_def)

lemma brake_in_range:
  "0 \<le> d \<Longrightarrow> controls_in_range x \<Longrightarrow> controls_in_range (BrakeController_updateBrake d x)"
  by (simp add: controls_in_range_def BrakeController_updateBrake_def Let_def
      in_unit_def BRAKE_RATE_def MAX_BRAKE_def)

lemma cruise_in_range:
  "controls_in_range x \<Longrightarrow> controls_in_range (CruiseOnRunwayController_updateThrottle x)"
  by (simp add: controls_in_range_def CruiseOnRunwayController_updateThrottle_def Let_def
      calculateThrottleAndBrake_def in_unit_def MAX_BRAKE_def MAX_THROTTLE_def)

lemma step_in_range:
  "controls_in_range x \<Longrightarrow> controls_in_range (step fm cfg t x)"
  by (simp add: controls_in_range_def step_def Let_def list_all_push msg_in_range_def)

lemma pop_in_range:
  "controls_in_range x \<Longrightarrow> controls_in_range (pop_and_process x)"
  by (cases "queue x")
     (auto simp add: controls_in_range_def pop_and_process_def try_pop_def msg_in_range_def
        split: StateUpdateType.splits if_splits)

lemma throttle_applyStateSettings:
  "throttle (applyStateSettings ss s) = throttle s \<and> brake (applyStateSettings ss s) = brake s"
  unfolding applyStateSettings_def
  by (induction ss arbitrary: s) (simp_all add: applyStateSetting_def Let_def)

lemma worker_step_in_range:
  "controls_in_range x \<Longrightarrow> controls_in_range (worker_step a x)"
proof (cases a)
  case Act_ThrottleIncrease
  assume "controls_in_range x"
  then show ?thesis
    by (simp add: Act_ThrottleIncrease ThrottleController_Increase_body_def increase_in_range)
next
  case Act_ThrottleDecrease
  assume "controls_in_range x"
  then show ?thesis
    by (simp add: Act_ThrottleDecrease ThrottleController_Decrease_body_def decrease_in_range FIXED_DT_def)
next
  case Act_Brake
  assume "controls_in_range x"
  then show ?thesis
    by (simp add: Act_Brake BrakeController_body_def brake_in_range FIXED_DT_def)
next
  case Act_Cruise
  assume "controls_in_range x"
  then show ?thesis
    by (simp add: Act_Cruise CruiseOnRunwayController_body_def cruise_in_range)
next
  case (Act_Dynamics cfg t)
  assume "controls_in_range x"
  then show ?thesis
    by (simp add: Act_Dynamics step_in_range)
next
  case Act_ManagerPop
  assume "controls_in_range x"
  then show ?thesis
    by (simp add: Act_ManagerPop pop_in_range)
next
  case (Act_ApplySettings ss)
  assume "controls_in_range x"
  then show ?thesis
    by (simp add: Act_ApplySettings controls_in_range_def throttle_applyStateSettings)
qed

lemma run_workers_in_range:
  "controls_in_range x \<Longrightarrow> controls_in_range (run_workers acts x)"
  unfolding run_workers_def
  by (induction acts arbitrary: x) (simp_all add: worker_step_in_range)

lemma drain_in_range:
  "in_unit (throttle s) \<Longrightarrow> in_unit (brake s) \<Longrightarrow> list_all msg_in_range q \<Longrightarrow>
   in_unit (throttle (drain q s)) \<and> in_unit (brake (drain q s))"
proof (induction q arbitrary: s)
  case Nil
  then show ?case by simp
next
  case (Cons m q)
  have "in_unit (throttle (process_raw_update m s)) \<and> in_unit (brake (process_raw_update m s))"
    using Cons.prems by (auto simp add: msg_in_range_def split: StateUpdateType.splits if_splits)
  then show ?case using Cons.IH Cons.prems by simp
qed

lemma process_queue_in_range:
  "controls_in_range x \<Longrightarrow> controls_in_range (process_queue x)"
  by (simp add: controls_in_range_def process_queue_def drain_in_range)


text \<open>
  Claim C5. With throttle and brake in [0, 1], on the state and in every pending
  Throttle or Brake message, each action of a worker keeps them there: the loop bodies of
  the throttle-increase, throttle-decrease, brake and cruise controllers, the
  integrator's step, a change of the enable flags, and a round of the state manager's
  loop. So it holds after any interleaving of such actions, and after the state manager
  has emptied the queue.
\<close>

theorem controls_stay_in_range:
  "controls_in_range x \<Longrightarrow>
   controls_in_range (worker_step a x)
   \<and> controls_in_range (run_workers acts x)
   \<and> controls_in_range (process_queue (run_workers acts x))"
  by (simp add: worker_step_in_range run_workers_in_range process_queue_in_range)

theorem controls_stay_in_range_witness:
  "controls_in_range ramp_state
   \<and> controls_in_range (run_workers [Act_ThrottleIncrease, Act_ManagerPop] ramp_state)
   \<and> throttle (shared (run_workers [Act_ThrottleIncrease, Act_ManagerPop] ramp_state)) = 0.001"
proof -
  have a: "controls_in_range ramp_state"
    by (simp add: ramp_state_def controls_in_range_def in_unit_def SharedStateSpace_init_def)
  have b: "throttle (shared (run_workers [Act_ThrottleIncrease, Act_ManagerPop] ramp_state)) = 0.001"
    by (simp add: run_workers_def ramp_state_def SharedStateSpace_init_def
        ThrottleController_Increase_body_def ThrottleController_Increase_updateThrottle_def
        THROTTLE_INCREASE_RATE_def FIXED_DT_def push_def pop_and_process_def try_pop_def)
  from controls_stay_in_range [OF a, of Act_ThrottleIncrease "[Act_ThrottleIncrease, Act_ManagerPop]"]
  show ?thesis using a b by simp
qed


subsection \<open>The integrator and the state manager (C2, C4)\<close>

lemma drain_append: "drain (q @ r) s = drain r (drain q s)"
  by (induction q arbitrary: s) simp_all

lemma step_queue:
  "queue (step forceModel cfg t x) =
     queue x @
       [\<lparr>msg_type = Velocity,
         msg_value = velocity (shared x)
           + fr_net_force (forceModel (shared x) (velocity (shared x)) cfg) / getMass cfg * 0.01\<rparr>,
        \<lparr>msg_type = Position, msg_value = position (shared x) + velocity (shared x) * 0.01\<rparr>,
        \<lparr>msg_type = Acceleration,
         msg_value = fr_net_force (forceModel (shared x) (velocity (shared x)) cfg) / getMass cfg\<rparr>]"
  by (simp add: step_def Let_def push_def)

lemma step_keeps_kinematics:
  "velocity (shared (step forceModel cfg t x)) = velocity (shared x)
   \<and> position (shared (step forceModel cfg t x)) = position (shared x)
   \<and> acceleration (shared (step forceModel cfg t x)) = acceleration (shared x)"
  by (simp add: step_def Let_def)

lemma pop_and_process_velocity:
  "pop_and_process \<lparr>shared = st, queue = \<lparr>msg_type = Velocity, msg_value = w\<rparr> # q\<rparr> =
     \<lparr>shared = st\<lparr>velocity := w\<rparr>, queue = q\<rparr>"
  by (simp add: pop_and_process_def try_pop_def)

lemma velocity_drain: "velocity (drain q st) = last (velocity st # velocity_values q)"
proof (induction q arbitrary: st)
  case Nil
  then show ?case by (simp add: velocity_values_def)
next
  case (Cons m q)
  show ?case
  proof (cases "msg_type m = Velocity")
    case True
    then show ?thesis by (simp add: Cons.IH velocity_values_def)
  next
    case False
    then have "velocity (process_raw_update m st) = velocity st"
      by (cases "msg_type m") simp_all
    with False show ?thesis by (simp add: Cons.IH velocity_values_def)
  qed
qed

text \<open>
  Claim C2 as stated fails: braking at full brake from 0.01 m/s, a tick in which the
  integrator steps and the state manager then takes its three messages ends with a
  negative velocity in the shared state.
\<close>

theorem velocity_clamp_counterexample:
  "velocity (shared (run_workers (tick_schedule AircraftConfig_FixedWin_AC1 0.01) braking_state)) < 0
   \<and> queue (run_workers (tick_schedule AircraftConfig_FixedWin_AC1 0.01) braking_state) = []"
  by (simp add: run_workers_def tick_schedule_def step_def Let_def push_def pop_and_process_def
      try_pop_def braking_state_def SharedStateSpace_init_def calculateNetForce_def
      AircraftConfig_FixedWin_AC1_def AIR_DENSITY_def FRONTAL_AREA_def)

text \<open>
  Claim C2, amended. No clamp lies between the integrator's \<open>v + a \<cdot> 0.01\<close> and the
  velocity field. The integrator leaves the field alone and appends to the queue the
  Velocity message with the value \<open>v + a \<cdot> 0.01\<close>, \<open>a = net_force / mass\<close>, computed
  from the state it read, whatever the sign. The state manager stores the value of a
  Velocity message as it is: one round of its loop on such a message, and a pass over any
  queue, which ends with the value of the last Velocity message (or the old velocity if
  there is none).
\<close>

theorem velocity_stored_unclamped:
  "queue (step forceModel cfg t x) =
     queue x @
       [\<lparr>msg_type = Velocity,
         msg_value = velocity (shared x)
           + fr_net_force (forceModel (shared x) (velocity (shared x)) cfg) / getMass cfg * 0.01\<rparr>,
        \<lparr>msg_type = Position, msg_value = position (shared x) + velocity (shared x) * 0.01\<rparr>,
        \<lparr>msg_type = Acceleration,
         msg_value = fr_net_force (forceModel (shared x) (velocity (shared x)) cfg) / getMass cfg\<rparr>]
   \<and> velocity (shared (step forceModel cfg t x)) = velocity (shared x)
   \<and> velocity (process_raw_update \<lparr>msg_type = Velocity, msg_value = w\<rparr> st) = w
   \<and> pop_and_process \<lparr>shared = st, queue = \<lparr>msg_type = Velocity, msg_value = w\<rparr> # q\<rparr> =
       \<lparr>shared = st\<lparr>velocity := w\<rparr>, queue = q\<rparr>
   \<and> velocity (drain q st) = last (velocity st # velocity_values q)
   \<and> velocity (shared (process_queue \<lparr>shared = st, queue = q\<rparr>)) = last (velocity st # velocity_values q)"
proof (intro conjI)
  show "velocity (drain q st) = last (velocity st # velocity_values q)"
    by (rule velocity_drain)
  then show "velocity (shared (process_queue \<lparr>shared = st, queue = q\<rparr>)) = last (velocity st # velocity_values q)"
    by (simp add: process_queue_def)
qed (simp_all add: step_queue step_keeps_kinematics pop_and_process_velocity)

text \<open>The force model below the standstill threshold, for any state and aircraft.\<close>

lemma calculateNetForce_at_rest:
  assumes "\<bar>v\<bar> < 0.01"
  shows "fr_brake_force (calculateNetForce st v cfg) = 0"
    and "fr_static_friction (calculateNetForce st v cfg) =
       getStaticFrictionCoefficient cfg * (getMass cfg * 9.81)"
    and "\<bar>fr_thrust (calculateNetForce st v cfg) - fr_drag (calculateNetForce st v cfg)\<bar>
           < fr_static_friction (calculateNetForce st v cfg) \<Longrightarrow>
         fr_net_force (calculateNetForce st v cfg) = 0"
    and "\<not> \<bar>fr_thrust (calculateNetForce st v cfg) - fr_drag (calculateNetForce st v cfg)\<bar>
           < fr_static_friction (calculateNetForce st v cfg) \<Longrightarrow>
         fr_net_force (calculateNetForce st v cfg) =
           fr_thrust (calculateNetForce st v cfg) - fr_drag (calculateNetForce st v cfg)
             - fr_static_friction (calculateNetForce st v cfg)
               * (if fr_thrust (calculateNetForce st v cfg) - fr_drag (calculateNetForce st v cfg) > 0
                  then 1 else - 1)"
  using assms by (simp_all add: calculateNetForce_def Let_def)

text \<open>
  Claim C4 at a state below the standstill threshold that is not at rest: 0.005 m/s at
  30 m, no throttle, no brake. The force model gives brake force 0, static friction
  15696 N and, thrust minus drag being below it, net force 0, as the claim says. The
  integrator then enqueues acceleration 0, the velocity 0.005 again and the position
  30.00005: after the state manager has taken the messages the position has changed.
\<close>

theorem creep_below_standstill_threshold:
  "\<bar>velocity (shared creeping_state)\<bar> < 0.01
   \<and> fr_brake_force (calculateNetForce (shared creeping_state) (velocity (shared creeping_state))
         AircraftConfig_FixedWin_AC1) = 0
   \<and> fr_static_friction (calculateNetForce (shared creeping_state) (velocity (shared creeping_state))
         AircraftConfig_FixedWin_AC1) = 15696
   \<and> \<bar>unbraked_force (shared creeping_state) AircraftConfig_FixedWin_AC1\<bar> < 15696
   \<and> fr_net_force (calculateNetForce (shared creeping_state) (velocity (shared creeping_state))
         AircraftConfig_FixedWin_AC1) = 0
   \<and> acceleration (shared (run_workers (tick_schedule AircraftConfig_FixedWin_AC1 0.01) creeping_state)) = 0
   \<and> velocity (shared (run_workers (tick_schedule AircraftConfig_FixedWin_AC1 0.01) creeping_state)) = 0.005
   \<and> position (shared creeping_state) = 30
   \<and> position (shared (run_workers (tick_schedule AircraftConfig_FixedWin_AC1 0.01) creeping_state)) = 30.00005"
  by (simp add: run_workers_def tick_schedule_def step_def Let_def push_def pop_and_process_def
      try_pop_def creeping_state_def SharedStateSpace_init_def calculateNetForce_def
      unbraked_force_def AircraftConfig_FixedWin_AC1_def AIR_DENSITY_def FRONTAL_AREA_def)

subsection \<open>The cruise controller's target (C3)\<close>

text \<open>
  Claim C3 at a state where the scenario seeded a target speed of 30 m/s and the
  aircraft runs at 50 m/s: the error against \<^const>\<open>target_speed\<close> is \<open>-20\<close>, which
  the control law turns into throttle 0 and brake 1; the controller computes the error
  against its literal 100, which is 50, and stores throttle 1 and brake 0.
\<close>

theorem cruise_target_is_literal:
  "target_speed (shared cruise_state) - velocity (shared cruise_state) = - 20
   \<and> velocity_error (velocity (shared cruise_state)) cruise_target_velocity = 50
   \<and> throttle (shared (CruiseOnRunwayController_body cruise_state)) = 1
   \<and> brake (shared (CruiseOnRunwayController_body cruise_state)) = 0
   \<and> calculateThrottleAndBrake (velocity (shared cruise_state)) (target_speed (shared cruise_state)) = (0, 1)"
  by (simp add: cruise_state_def SharedStateSpace_init_def velocity_error_def
      cruise_target_velocity_def CruiseOnRunwayController_body_def
      CruiseOnRunwayController_updateThrottle_def calculateThrottleAndBrake_def Let_def
      CRUISE_GAIN_def MAX_THROTTLE_def MAX_BRAKE_def)



subsection \<open>The CSV recorder (C9)\<close>

lemma round_half_even_bounds:
  "of_int (round_half_even x) \<le> x + 1 / 2 \<and> x - 1 / 2 \<le> of_int (round_half_even x)"
  by (simp add: round_half_even_def Let_def) linarith

















subsection \<open>The clock and its barrier (C1)\<close>

lemma free_run_five_moves:
  assumes "running c" "\<not> paused c" "registered_threads c = 0" "completed_threads c = 0"
  shows "run_clock (replicate 5 Clock_Move) (At_loop_head, c) = (At_loop_head, advance c)"
proof -
  have eq: "c\<lparr>completed_threads := 0\<rparr> = c" using assms(4) by simp
  have 1: "clock_step Clock_Move (At_loop_head, c) = (At_step_end_wait, c)"
    using assms by simp
  have 2: "clock_step Clock_Move (At_step_end_wait, c) = (After_step_end_wait, c)"
    using assms by (simp add: step_end_pred_def)
  have 3: "clock_step Clock_Move (After_step_end_wait, c) = (At_pause_check, c)"
    using assms by (simp add: eq)
  have 4: "clock_step Clock_Move (At_pause_check, c) = (After_pause, c)"
    using assms by simp
  have 5: "clock_step Clock_Move (After_pause, c) = (At_loop_head, advance c)"
    using assms by simp
  have r: "replicate 5 Clock_Move = [Clock_Move, Clock_Move, Clock_Move, Clock_Move, Clock_Move]"
    by (simp add: numeral_eq_Suc)
  show ?thesis by (simp only: r run_clock_def fold_simps o_apply 1 2 3 4 5)
qed

lemma advance_frame:
  "running (advance c) = running c \<and> paused (advance c) = paused c
   \<and> registered_threads (advance c) = registered_threads c
   \<and> completed_threads (advance c) = completed_threads c
   \<and> clock_dt (advance c) = clock_dt c"
  by (simp add: advance_def)

lemma run_clock_append: "run_clock (xs @ ys) s = run_clock ys (run_clock xs s)"
  by (simp add: run_clock_def)

lemma free_run:
  assumes "running c" "\<not> paused c" "registered_threads c = 0" "completed_threads c = 0"
  shows "run_clock (replicate (5 * n) Clock_Move) (At_loop_head, c) = (At_loop_head, advance_n n c)"
  using assms
proof (induction n arbitrary: c)
  case 0
  then show ?case by (simp add: run_clock_def)
next
  case (Suc n)
  have "replicate (5 * Suc n) Clock_Move = replicate 5 Clock_Move @ replicate (5 * n) Clock_Move"
    by (simp add: replicate_add [symmetric])
  then have "run_clock (replicate (5 * Suc n) Clock_Move) (At_loop_head, c) =
      run_clock (replicate (5 * n) Clock_Move) (run_clock (replicate 5 Clock_Move) (At_loop_head, c))"
    by (simp only: run_clock_append)
  also have "\<dots> = run_clock (replicate (5 * n) Clock_Move) (At_loop_head, advance c)"
    by (simp only: free_run_five_moves [OF Suc.prems])
  also have "\<dots> = (At_loop_head, advance_n n (advance c))"
    using Suc.prems by (intro Suc.IH) (simp_all add: advance_frame)
  finally show ?case by simp
qed

lemma advance_n_values:
  "time_steps (advance_n n c) = time_steps c + of_nat n
   \<and> current_time (advance_n n c) = current_time c + of_nat n * clock_dt c
   \<and> registered_threads (advance_n n c) = registered_threads c
   \<and> completed_threads (advance_n n c) = completed_threads c
   \<and> clock_dt (advance_n n c) = clock_dt c"
  by (induction n arbitrary: c) (simp_all add: advance_def algebra_simps)

text \<open>
  Claim C1 as stated fails: with no worker registered, \<^verbatim>\<open>start()\<close> publishes tick 1 and,
  with no action of any other thread, goes on to publish tick 2: the barrier predicate
  \<open>0 \<ge> 0\<close> holds at its first test.
\<close>

theorem clock_blocks_without_workers_counterexample:
  "run_clock [Clock_Move] (At_entry, SimulationClock_init) =
     (At_loop_head, SimulationClock_init\<lparr>running := True, current_time := 0.01, time_steps := 1\<rparr>)
   \<and> run_clock [Clock_Move, Clock_Move, Clock_Move] (At_entry, SimulationClock_init) =
     (After_step_end_wait, SimulationClock_init\<lparr>running := True, current_time := 0.01, time_steps := 1\<rparr>)
   \<and> run_clock (replicate 6 Clock_Move) (At_entry, SimulationClock_init) =
     (At_loop_head, SimulationClock_init\<lparr>running := True, current_time := 0.02, time_steps := 2\<rparr>)
   \<and> registered_threads (SimulationClock_init\<lparr>running := True, current_time := 0.02, time_steps := 2\<rparr>) = 0
   \<and> completed_threads (SimulationClock_init\<lparr>running := True, current_time := 0.02, time_steps := 2\<rparr>) = 0"
  by (simp add: run_clock_def SimulationClock_init_def advance_def step_end_pred_def numeral_eq_Suc)

text \<open>
  Claim C1, amended. \<^verbatim>\<open>start()\<close> on a clock that is not running sets it running,
  publishes tick 1 and goes to the head of its loop. There, while the clock is running and
  not paused and both counters are 0, the barrier does not hold it: by its own moves alone,
  with no worker registered and no call of \<^verbatim>\<open>notifyStepCompleted\<close>, it publishes one tick
  after the other (after \<open>5n\<close> of its moves, \<open>n\<close> more ticks, the counters still 0).
\<close>

theorem clock_free_runs_without_workers:
  "(\<not> running c \<longrightarrow>
      clock_step Clock_Move (At_entry, c) =
        (At_loop_head, advance (c\<lparr>running := True, paused := False\<rparr>)))
   \<and> (running c \<and> \<not> paused c \<and> registered_threads c = 0 \<and> completed_threads c = 0 \<longrightarrow>
        run_clock (replicate (5 * n) Clock_Move) (At_loop_head, c) = (At_loop_head, advance_n n c)
        \<and> time_steps (advance_n n c) = time_steps c + of_nat n
        \<and> current_time (advance_n n c) = current_time c + of_nat n * clock_dt c
        \<and> registered_threads (advance_n n c) = 0
        \<and> completed_threads (advance_n n c) = 0)"
proof (intro conjI impI)
  assume "running c \<and> \<not> paused c \<and> registered_threads c = 0 \<and> completed_threads c = 0"
  then have a: "running c" "\<not> paused c" "registered_threads c = 0" "completed_threads c = 0"
    by simp_all
  show "run_clock (replicate (5 * n) Clock_Move) (At_loop_head, c) = (At_loop_head, advance_n n c)"
    by (rule free_run [OF a])
  show "time_steps (advance_n n c) = time_steps c + of_nat n"
    by (simp add: advance_n_values)
  show "current_time (advance_n n c) = current_time c + of_nat n * clock_dt c"
    by (simp add: advance_n_values)
  show "registered_threads (advance_n n c) = 0"
    by (simp add: advance_n_values a)
  show "completed_threads (advance_n n c) = 0"
    by (simp add: advance_n_values a)
qed simp

theorem clock_free_runs_without_workers_witness:
  "clock_step Clock_Move (At_entry, SimulationClock_init) = (At_loop_head, started_clock)
   \<and> running started_clock \<and> \<not> paused started_clock
   \<and> registered_threads started_clock = 0 \<and> completed_threads started_clock = 0
   \<and> time_steps started_clock = 1
   \<and> fst (run_clock (replicate (5 * 3) Clock_Move) (At_loop_head, started_clock)) = At_loop_head
   \<and> time_steps (snd (run_clock (replicate (5 * 3) Clock_Move) (At_loop_head, started_clock))) = 4"
proof -
  have a: "running started_clock \<and> \<not> paused started_clock \<and> registered_threads started_clock = 0
      \<and> completed_threads started_clock = 0"
    by (simp add: started_clock_def SimulationClock_init_def advance_def)
  have b: "time_steps started_clock = 1"
    by (simp add: started_clock_def SimulationClock_init_def advance_def)
  have c: "\<not> running SimulationClock_init"
    by (simp add: SimulationClock_init_def)
  have d: "SimulationClock_init\<lparr>running := True, paused := False\<rparr> = SimulationClock_init\<lparr>running := True\<rparr>"
    by (simp add: SimulationClock_init_def)
  from clock_free_runs_without_workers [of started_clock 3] a
  have 1: "run_clock (replicate (5 * 3) Clock_Move) (At_loop_head, started_clock) =
          (At_loop_head, advance_n 3 started_clock)"
    and 2: "time_steps (advance_n 3 started_clock) = time_steps started_clock + of_nat 3"
    by blast+
  from clock_free_runs_without_workers [of SimulationClock_init 0] c
  have 4: "clock_step Clock_Move (At_entry, SimulationClock_init) =
      (At_loop_head, advance (SimulationClock_init\<lparr>running := True, paused := False\<rparr>))"
    by blast
  from 4 have s4: "clock_step Clock_Move (At_entry, SimulationClock_init) = (At_loop_head, started_clock)"
    by (simp only: d started_clock_def)
  from 1 2 b have 6: "fst (run_clock (replicate (5 * 3) Clock_Move) (At_loop_head, started_clock)) = At_loop_head
      \<and> time_steps (snd (run_clock (replicate (5 * 3) Clock_Move) (At_loop_head, started_clock))) = 4"
    by simp
  from s4 6 a b show ?thesis by blast
qed

subsection \<open>Events fire once (C6)\<close>

lemma startController_events:
  "triggered_events (startController n m) = triggered_events m
   \<and> count_list (mlog (startController n m)) (LogEventTriggered e) = count_list (mlog m) (LogEventTriggered e)"
  by (simp add: startController_def split: option.splits)

lemma stopController_events:
  "triggered_events (stopController n m) = triggered_events m
   \<and> count_list (mlog (stopController n m)) (LogEventTriggered e) = count_list (mlog m) (LogEventTriggered e)"
  by (simp add: stopController_def split: option.splits)

lemma stopAllControllers_events:
  "triggered_events (stopAllControllers m) = triggered_events m
   \<and> count_list (mlog (stopAllControllers m)) (LogEventTriggered e) = count_list (mlog m) (LogEventTriggered e)"
  by (simp add: stopAllControllers_def)

lemma executeControllerAction_events:
  "triggered_events (executeControllerAction a m) = triggered_events m
   \<and> count_list (mlog (executeControllerAction a m)) (LogEventTriggered e) = count_list (mlog m) (LogEventTriggered e)"
  by (simp add: executeControllerAction_def Let_def startController_events stopController_events
      stopAllControllers_events split: option.splits)

lemma marks_moves:
  "marks n (executeControllerAction a m) = marks n m"
  "marks n (handleEventStateChanges h m) = marks n m"
  "marks n (markEventTriggered h m) = marks n m + (if h = n then 1 else 0)"
  "marks n (m\<lparr>mlog := mlog m @ [LogAlreadyTriggered h]\<rparr>) = marks n m"
  "marks n (m\<lparr>state := st\<rparr>) = marks n m"
  by (simp_all add: marks_def executeControllerAction_events handleEventStateChanges_def
      markEventTriggered_def split: option.splits)

text \<open>The monitor: a latched entry is skipped, an open one whose condition holds is
  latched and published, and every publication is paid for by closing a latch.\<close>

lemma total_events_publish:
  "total_events (event_stats (publish e b) n) =
     total_events (event_stats b n) + (if bus_running b \<and> n = e then 1 else 0)"
  by (simp add: publish_def Let_def)

lemma queue_publish:
  "count_list (event_queue (publish e b)) n + total_events (event_stats b n)
     \<le> count_list (event_queue b) n + total_events (event_stats (publish e b) n)"
  by (simp add: publish_def Let_def)

lemma subscribers_publish: "subscribers (publish e b) = subscribers b"
  by (simp add: publish_def Let_def)

lemma check_event_latched:
  "l n = Some True \<Longrightarrow> check_event st (n, d) (l, b) = (l, b)"
  by (simp add: check_event_def)

lemma check_event_fires:
  "l n \<noteq> Some True \<Longrightarrow> trigger_condition d st \<Longrightarrow>
   check_event st (n, d) (l, b) = (l(n \<mapsto> True), publish n b)"
  by (auto simp add: check_event_def split: option.splits)

lemma check_event_once:
  assumes "publish_once (fst lb) (snd lb)"
  shows "publish_once (fst (check_event st entry lb)) (snd (check_event st entry lb))"
  unfolding publish_once_def
proof
  fix n
  from assms have n: "total_events (event_stats (snd lb) n) \<le> (if fst lb n = Some True then 1 else 0)"
    by (simp add: publish_once_def)
  show "total_events (event_stats (snd (check_event st entry lb)) n)
      \<le> (if fst (check_event st entry lb) n = Some True then 1 else 0)"
    using n
    by (auto simp add: check_event_def Let_def total_events_publish split: option.splits if_splits)
qed

lemma check_event_queue:
  "count_list (event_queue (snd (check_event st entry lb))) n + total_events (event_stats (snd lb) n)
     \<le> count_list (event_queue (snd lb)) n + total_events (event_stats (snd (check_event st entry lb)) n)
   \<and> subscribers (snd (check_event st entry lb)) = subscribers (snd lb)"
  using queue_publish [of "fst entry" "snd lb" n]
  by (simp add: check_event_def Let_def subscribers_publish)

text \<open>A move of a bus worker publishes nothing, and does not raise the sum of the marks
  made, the queued copies and the marks the worker may still make.\<close>

lemma worker_move_budget:
  assumes "one_handler b" and "worker_move w (b, m) = Some (w', b', m')"
  shows "marks n m' + count_list (event_queue b') n + pending n w'
           \<le> marks n m + count_list (event_queue b) n + pending n w
         \<and> total_events (event_stats b' n) = total_events (event_stats b n)
         \<and> subscribers b' = subscribers b"
proof (cases w)
  case Idle
  with assms(2) show ?thesis by (auto split: if_splits list.splits)
next
  case (Popped item)
  from assms(1) have "count_list (subscribers b item) n \<le> (if item = n then 1 else 0)"
    unfolding one_handler_def by blast
  with assms(2) Popped show ?thesis by auto
next
  case (In_loop item hs)
  with assms(2) show ?thesis
    by (cases hs) (auto simp add: marks_moves split: if_splits option.splits)
next
  case (Cb_mark item hs h as)
  with assms(2) show ?thesis by (auto simp add: marks_moves)
next
  case (Cb_state_change item hs h as)
  with assms(2) show ?thesis by (auto simp add: marks_moves)
next
  case (Cb_actions item hs h as)
  with assms(2) show ?thesis by (cases as) (auto simp add: marks_moves)
next
  case (After_callback item hs)
  with assms(2) show ?thesis by auto
next
  case Exited
  with assms(2) show ?thesis by simp
qed

lemma sum_list_map_update:
  fixes f :: "'a \<Rightarrow> nat"
  shows "i < length xs \<Longrightarrow> sum_list (map f (xs[i := y])) + f (xs ! i) = sum_list (map f xs) + f y"
proof (induction xs arbitrary: i)
  case Nil
  then show ?case by simp
next
  case (Cons x xs)
  then show ?case by (cases i) auto
qed

lemma event_step_budget:
  assumes "event_budget s"
  shows "event_budget (event_step a s)"
proof (cases a)
  case Monitor_Check
  show ?thesis
  proof (cases "monitor_pc s < length (scenario_events s)")
    case False
    with assms show ?thesis by (simp add: Monitor_Check event_budget_def)
  next
    case True
    let ?lb = "(local_triggered s, bus s)"
    let ?lb' = "check_event (state (manager s)) (scenario_events s ! monitor_pc s) ?lb"
    have s': "event_step a s = s\<lparr>local_triggered := fst ?lb', bus := snd ?lb', monitor_pc := monitor_pc s + 1\<rparr>"
      using True by (simp add: Monitor_Check Let_def)
    from assms have 1: "publish_once (fst ?lb') (snd ?lb')"
      using check_event_once [of ?lb] by (simp add: event_budget_def)
    have 2: "one_handler (snd ?lb')"
      using assms check_event_queue [of _ _ ?lb] by (simp add: event_budget_def one_handler_def)
    have 3: "marks n (manager s) + count_list (event_queue (snd ?lb')) n
                + sum_list (map (pending n) (workers s))
              \<le> total_events (event_stats (snd ?lb') n)" for n
    proof -
      from assms have "marks n (manager s) + count_list (event_queue (bus s)) n
                + sum_list (map (pending n) (workers s))
              \<le> total_events (event_stats (bus s) n)"
        unfolding event_budget_def by blast
      moreover have "count_list (event_queue (snd ?lb')) n + total_events (event_stats (bus s) n)
          \<le> count_list (event_queue (bus s)) n + total_events (event_stats (snd ?lb') n)"
        using check_event_queue [of "state (manager s)" "scenario_events s ! monitor_pc s" ?lb n]
        by simp
      ultimately show ?thesis by linarith
    qed
    from 1 2 3 show ?thesis by (simp add: s' event_budget_def)
  qed
next
  case (Worker_Move i)
  show ?thesis
  proof (cases "i < length (workers s)")
    case False
    with assms show ?thesis by (simp add: Worker_Move)
  next
    case True
    show ?thesis
    proof (cases "worker_move (workers s ! i) (bus s, manager s)")
      case None
      with assms True show ?thesis by (simp add: Worker_Move)
    next
      case (Some wbm)
      obtain w' b' m' where wbm: "wbm = (w', b', m')" by (cases wbm) auto
      have s': "event_step a s = s\<lparr>workers := (workers s)[i := w'], bus := b', manager := m'\<rparr>"
        using True Some by (simp add: Worker_Move wbm)
      from assms have oh: "one_handler (bus s)" by (simp add: event_budget_def)
      from Some have mv: "worker_move (workers s ! i) (bus s, manager s) = Some (w', b', m')"
        by (simp add: wbm)
      have sub: "subscribers b' = subscribers (bus s)"
        using worker_move_budget [OF oh mv] by simp
      have tot: "total_events (event_stats b' n) = total_events (event_stats (bus s) n)" for n
        using worker_move_budget [OF oh mv] by simp
      from assms tot have 1: "publish_once (local_triggered s) b'"
        by (simp add: event_budget_def publish_once_def)
      from oh sub have 2: "one_handler b'" by (simp add: one_handler_def)
      have 3: "marks n m' + count_list (event_queue b') n
                + sum_list (map (pending n) ((workers s)[i := w']))
              \<le> total_events (event_stats b' n)" for n
      proof -
        from assms have "marks n (manager s) + count_list (event_queue (bus s)) n
                + sum_list (map (pending n) (workers s))
              \<le> total_events (event_stats (bus s) n)"
          unfolding event_budget_def by blast
        moreover have "marks n m' + count_list (event_queue b') n + pending n w'
           \<le> marks n (manager s) + count_list (event_queue (bus s)) n + pending n (workers s ! i)"
          using worker_move_budget [OF oh mv] by simp
        moreover have "sum_list (map (pending n) ((workers s)[i := w'])) + pending n (workers s ! i) =
            sum_list (map (pending n) (workers s)) + pending n w'"
          using True by (rule sum_list_map_update)
        ultimately show ?thesis using tot [of n] by linarith
      qed
      from 1 2 3 show ?thesis by (simp add: s' event_budget_def)
    qed
  qed
next
  case (Other_Worker f)
  with assms show ?thesis by (simp add: event_budget_def marks_moves)
qed

lemma run_events_budget: "event_budget s \<Longrightarrow> event_budget (run_events acts s)"
  unfolding run_events_def
  by (induction acts arbitrary: s) (simp_all add: event_step_budget)

text \<open>The start of a run: nothing published, nothing marked, the workers idle, and since
  the names of the table (the keys of an \<^verbatim>\<open>unordered_map\<close>) are distinct, at most one
  callback for an event, which captured the event's name.\<close>

lemma event_stats_subscribe: "event_stats (subscribe e h b) = event_stats b"
  by (simp add: subscribe_def)

lemma fold_subscribe:
  "event_stats (fold (\<lambda>entry. subscribe (fst entry) (fst entry)) ds b) = event_stats b
   \<and> event_queue (fold (\<lambda>entry. subscribe (fst entry) (fst entry)) ds b) = event_queue b
   \<and> subscribers (fold (\<lambda>entry. subscribe (fst entry) (fst entry)) ds b) e =
       subscribers b e @ filter (\<lambda>k. k = e) (map fst ds)"
  by (induction ds arbitrary: b) (simp_all add: subscribe_def)

lemma count_list_filter_distinct:
  "distinct ks \<Longrightarrow> count_list (filter (\<lambda>k. k = e) ks) n \<le> (if e = n then 1 else 0)"
  by (induction ks) auto

lemma event_system_init_budget:
  assumes "distinct (map fst defs)"
  shows "event_budget (event_system_init st c defs)"
proof -
  let ?m = "setEventDefinitions defs (ControllerManagerThread_init st c)"
  let ?b = "setupEventHandlers ?m EventBus_init"
  have defs: "event_definitions ?m = defs"
    by (simp add: setEventDefinitions_def)
  have st: "event_stats ?b = (\<lambda>e. EventStats_zero)" and q: "event_queue ?b = []"
    by (simp_all add: setupEventHandlers_def fold_subscribe EventBus_init_def)
  have sub: "subscribers ?b e = filter (\<lambda>k. k = e) (map fst defs)" for e
    by (simp add: setupEventHandlers_def fold_subscribe defs EventBus_init_def)
  have 1: "publish_once Map.empty ?b"
    by (simp add: publish_once_def st EventStats_zero_def)
  have 2: "one_handler ?b"
    unfolding one_handler_def sub using assms by (simp add: count_list_filter_distinct)
  have 4: "marks n ?m = 0" for n
    by (simp add: marks_def setEventDefinitions_def ControllerManagerThread_init_def)
  from 1 2 4 q show ?thesis
    by (simp add: event_budget_def event_system_init_def Let_def sum_list_replicate)
qed

text \<open>
  Claim C6. In any run of a scenario, from its start and with the monitor's checks, the
  moves of the four bus workers and changes of the shared state by other threads
  interleaved in any order: for every event name the manager marks the event triggered,
  and with it goes on to execute the event's action list, at most once; and the monitor
  publishes the name at most once. The bound rests on the monitor's latch, which only the
  monitor thread touches: an entry whose name is latched is skipped by \<^verbatim>\<open>check_events\<close>,
  an entry not yet latched whose condition holds is latched and published, so the queue
  holds a name at most once and at most one worker ever runs its callback. In the
  callback, a call that finds the event triggered only logs that it skips; a call that
  finds it not triggered, and finds its definition, goes on to \<^verbatim>\<open>markEventTriggered\<close>,
  after which the event is triggered, and then to the actions in their order.
\<close>

theorem event_actions_at_most_once:
  "(distinct (map fst defs) \<longrightarrow>
      count_list (mlog (manager (run_events acts (event_system_init st c defs)))) (LogEventTriggered n) \<le> 1
      \<and> total_events (event_stats (bus (run_events acts (event_system_init st c defs))) n) \<le> 1)
   \<and> (l n = Some True \<longrightarrow> check_event st (n, d) (l, b) = (l, b))
   \<and> (l n \<noteq> Some True \<and> trigger_condition d st \<longrightarrow>
        check_event st (n, d) (l, b) = (l(n \<mapsto> True), publish n b))
   \<and> (isEventTriggered n m \<longrightarrow>
        worker_move (In_loop item (n # hs)) (b, m) =
          Some (After_callback item hs, b, m\<lparr>mlog := mlog m @ [LogAlreadyTriggered n]\<rparr>))
   \<and> (\<not> isEventTriggered n m \<and> map_of (event_definitions m) n = Some d \<longrightarrow>
        worker_move (In_loop item (n # hs)) (b, m) = Some (Cb_mark item hs n (actions d), b, m)
        \<and> worker_move (Cb_mark item hs n (actions d)) (b, m) =
            Some (Cb_state_change item hs n (actions d), b, markEventTriggered n m)
        \<and> isEventTriggered n (markEventTriggered n m)
        \<and> worker_move (Cb_state_change item hs n (actions d)) (b, m) =
            Some (Cb_actions item hs n (actions d), b, handleEventStateChanges n m))
   \<and> worker_move (Cb_actions item hs n (a # as)) (b, m) =
       Some (Cb_actions item hs n as, b, executeControllerAction a m)"
proof (intro conjI impI)
  assume dist: "distinct (map fst defs)"
  let ?s = "run_events acts (event_system_init st c defs)"
  from run_events_budget [OF event_system_init_budget [OF dist], of acts st c]
  have bud: "event_budget ?s" .
  then have "marks n (manager ?s) + count_list (event_queue (bus ?s)) n
                + sum_list (map (pending n) (workers ?s))
              \<le> total_events (event_stats (bus ?s) n)"
    unfolding event_budget_def by blast
  moreover from bud have "total_events (event_stats (bus ?s) n)
      \<le> (if local_triggered ?s n = Some True then 1 else 0)"
    unfolding event_budget_def publish_once_def by blast
  ultimately have "marks n (manager ?s) \<le> 1" and t: "total_events (event_stats (bus ?s) n) \<le> 1"
    by (simp_all split: if_splits)
  then show "count_list (mlog (manager ?s)) (LogEventTriggered n) \<le> 1"
    by (simp add: marks_def)
  from t show "total_events (event_stats (bus ?s) n) \<le> 1" .
qed (simp_all add: check_event_latched check_event_fires markEventTriggered_def isEventTriggered_def)

theorem event_actions_at_most_once_witness:
  "distinct (map fst taxi_start_throttle)
   \<and> mlog (manager (run_events taxi_schedule taxi_after_one_second)) =
     [LogEventTriggered ''START_THROTTLE'', LogStartedController name_throttle_increase,
      LogExecutingAction ''START_THROTTLE_INCREASE'' name_throttle_increase]
   \<and> workers (run_events taxi_schedule taxi_after_one_second) = [Idle, Idle, Idle, Idle]
   \<and> event_queue (bus (run_events taxi_schedule taxi_after_one_second)) = []
   \<and> count_list (mlog (manager (run_events taxi_schedule taxi_after_one_second)))
        (LogEventTriggered ''START_THROTTLE'') = 1
   \<and> total_events (event_stats (bus (run_events taxi_schedule taxi_after_one_second)) ''START_THROTTLE'') = 1
   \<and> check_event (state (manager taxi_after_one_second))
        (''START_THROTTLE'', snd (hd taxi_start_throttle)) (Map.empty, EventBus_init) =
       ([''START_THROTTLE'' \<mapsto> True], publish ''START_THROTTLE'' EventBus_init)
   \<and> check_event (state (manager taxi_after_one_second))
        (''START_THROTTLE'', snd (hd taxi_start_throttle))
        ([''START_THROTTLE'' \<mapsto> True], publish ''START_THROTTLE'' EventBus_init) =
       ([''START_THROTTLE'' \<mapsto> True], publish ''START_THROTTLE'' EventBus_init)
   \<and> worker_move (In_loop ''START_THROTTLE'' [''START_THROTTLE''])
        (EventBus_init, manager taxi_after_one_second) =
       Some (Cb_mark ''START_THROTTLE'' [] ''START_THROTTLE'' [START_THROTTLE_INCREASE],
             EventBus_init, manager taxi_after_one_second)
   \<and> worker_move (In_loop ''START_THROTTLE'' [''START_THROTTLE''])
        (EventBus_init, manager (run_events taxi_schedule taxi_after_one_second)) =
       Some (After_callback ''START_THROTTLE'' [], EventBus_init,
             (manager (run_events taxi_schedule taxi_after_one_second))
               \<lparr>mlog := [LogEventTriggered ''START_THROTTLE'',
                         LogStartedController name_throttle_increase,
                         LogExecutingAction ''START_THROTTLE_INCREASE'' name_throttle_increase,
                         LogAlreadyTriggered ''START_THROTTLE'']\<rparr>)"
proof -
  let ?s = "run_events taxi_schedule taxi_after_one_second"
  let ?d = "snd (hd taxi_start_throttle)"
  let ?st = "state (manager taxi_after_one_second)"
  let ?m0 = "manager taxi_after_one_second"
  have w4: "replicate MAX_WORKERS Idle = [Idle, Idle, Idle, Idle]"
    by (simp add: MAX_WORKERS_def numeral_eq_Suc)
  have run: "mlog (manager ?s) =
     [LogEventTriggered ''START_THROTTLE'', LogStartedController name_throttle_increase,
      LogExecutingAction ''START_THROTTLE_INCREASE'' name_throttle_increase]"
    and wk: "workers ?s = [Idle, Idle, Idle, Idle]"
    and qu: "event_queue (bus ?s) = []"
    and pub: "1 \<le> total_events (event_stats (bus ?s) ''START_THROTTLE'')"
    and trg: "isEventTriggered ''START_THROTTLE'' (manager ?s)"
    by (simp_all add: run_events_def taxi_schedule_def taxi_after_one_second_def
      event_system_init_def Let_def w4
      check_event_def taxi_start_throttle_def setEventDefinitions_def
      publish_def setupEventHandlers_def subscribe_def EventBus_init_def MAX_QUEUE_SIZE_def
      EventStats_zero_def isEventTriggered_def
      ControllerManagerThread_init_def markEventTriggered_def handleEventStateChanges_def
      executeControllerAction_def getActionConfig_def
      ControllerActionsConfig_init_def loadDefaultConfig_def mk_config_def
      applyStateSettings_def applyStateSetting_def startController_def createControllers_def
      SharedStateSpace_init_def name_throttle_increase_def)
  have cond: "trigger_condition ?d ?st"
    by (simp add: taxi_start_throttle_def taxi_after_one_second_def event_system_init_def Let_def
        setEventDefinitions_def ControllerManagerThread_init_def SharedStateSpace_init_def)
  have dist: "distinct (map fst taxi_start_throttle)"
    by (simp add: taxi_start_throttle_def)
  have fresh: "\<not> isEventTriggered ''START_THROTTLE'' ?m0"
    and look: "map_of (event_definitions ?m0) ''START_THROTTLE'' = Some ?d"
    and acts: "actions ?d = [START_THROTTLE_INCREASE]"
    by (simp_all add: taxi_after_one_second_def event_system_init_def Let_def
        setEventDefinitions_def ControllerManagerThread_init_def isEventTriggered_def
        taxi_start_throttle_def)
  note inst = event_actions_at_most_once [where acts = taxi_schedule and n = "''START_THROTTLE''"
      and d = ?d and st = ?st and c = ControllerActionsConfig_init and defs = taxi_start_throttle
      and item = "''START_THROTTLE''" and hs = "[]" and a = START_THROTTLE_INCREASE and as = "[]"]
  from inst [where l = Map.empty and b = EventBus_init and m = ?m0] dist
  have le: "total_events (event_stats (bus (run_events taxi_schedule
        (event_system_init ?st ControllerActionsConfig_init taxi_start_throttle))) ''START_THROTTLE'') \<le> 1"
    by blast
  have same: "event_system_init ?st ControllerActionsConfig_init taxi_start_throttle = taxi_after_one_second"
    by (simp add: taxi_after_one_second_def event_system_init_def Let_def setEventDefinitions_def
        ControllerManagerThread_init_def)
  have open_latch: "Map.empty ''START_THROTTLE'' \<noteq> Some True"
    by simp
  from inst [where l = Map.empty and b = EventBus_init and m = ?m0] open_latch cond
  have fire: "check_event ?st (''START_THROTTLE'', ?d) (Map.empty, EventBus_init) =
        ([''START_THROTTLE'' \<mapsto> True], publish ''START_THROTTLE'' EventBus_init)"
    by blast
  from inst [where l = Map.empty and b = EventBus_init and m = ?m0] fresh look
  have test: "worker_move (In_loop ''START_THROTTLE'' [''START_THROTTLE'']) (EventBus_init, ?m0) =
        Some (Cb_mark ''START_THROTTLE'' [] ''START_THROTTLE'' (actions ?d), EventBus_init, ?m0)"
    by blast
  from inst [where l = Map.empty and b = EventBus_init and m = "manager ?s"] trg
  have skip: "worker_move (In_loop ''START_THROTTLE'' [''START_THROTTLE'']) (EventBus_init, manager ?s) =
        Some (After_callback ''START_THROTTLE'' [], EventBus_init,
              (manager ?s)\<lparr>mlog := mlog (manager ?s) @ [LogAlreadyTriggered ''START_THROTTLE'']\<rparr>)"
    by blast
  have closed_latch: "[''START_THROTTLE'' \<mapsto> True] ''START_THROTTLE'' = Some True"
    by simp
  from inst [where l = "[''START_THROTTLE'' \<mapsto> True]"
      and b = "publish ''START_THROTTLE'' EventBus_init" and m = ?m0] closed_latch
  have latched: "check_event ?st (''START_THROTTLE'', ?d)
        ([''START_THROTTLE'' \<mapsto> True], publish ''START_THROTTLE'' EventBus_init) =
       ([''START_THROTTLE'' \<mapsto> True], publish ''START_THROTTLE'' EventBus_init)"
    by blast
  from le pub have one: "total_events (event_stats (bus ?s) ''START_THROTTLE'') = 1"
    by (simp only: same)
  from run have cnt: "count_list (mlog (manager ?s)) (LogEventTriggered ''START_THROTTLE'') = 1"
    by simp
  from test have test': "worker_move (In_loop ''START_THROTTLE'' [''START_THROTTLE'']) (EventBus_init, ?m0) =
        Some (Cb_mark ''START_THROTTLE'' [] ''START_THROTTLE'' [START_THROTTLE_INCREASE], EventBus_init, ?m0)"
    by (simp only: acts)
  from skip have skip': "worker_move (In_loop ''START_THROTTLE'' [''START_THROTTLE'']) (EventBus_init, manager ?s) =
        Some (After_callback ''START_THROTTLE'' [], EventBus_init,
              (manager ?s)\<lparr>mlog := [LogEventTriggered ''START_THROTTLE'',
                         LogStartedController name_throttle_increase,
                         LogExecutingAction ''START_THROTTLE_INCREASE'' name_throttle_increase,
                         LogAlreadyTriggered ''START_THROTTLE'']\<rparr>)"
    by (simp only: run append.simps)
  from dist run wk qu cnt one fire latched test' skip' show ?thesis by blast
qed


end
